theory Spec2Isabelle
  imports Complex_Main "HOL-Library.Word" "HOL-Library.Log_Nat"
begin

unbundle bit_operations_syntax

section \<open>The HDC2080 driver (src/src/hdc2080.py)\<close>

text \<open>
  The driver is a class holding a transport handle \<open>i2c\<close> and a bus address \<open>addr\<close>. Every
  method is a short sequence of calls to the transport (\<open>readfrom_mem\<close>, \<open>writeto_mem\<close>,
  \<open>scan\<close>) and, in \<open>reset\<close>, to \<open>time.sleep_ms\<close>.

  Modelling decisions:
  \<^item> Python integers are \<open>int\<close>; \<open>&\<close>, \<open>|\<close> and \<open><<\<close> are \<open>AND\<close>, \<open>OR\<close> and \<open>push_bit\<close>
    on \<open>int\<close> (both are two's complement on unbounded integers).
  \<^item> A byte on the bus is an \<open>8 word\<close>; a \<open>bytes\<close> object is a list of them.
  \<^item> A float argument is a \<open>pyfloat\<close>: a finite value, an infinity or NaN. Arithmetic on
    it rounds to nearest, ties to even, in the format of the runtime, binary32 or binary64
    (MicroPython is built with either); the format is a parameter of the methods that
    compute with an argument. The values the read methods return are \<open>real\<close>: they are
    finite, and no step of the read formulas rounds.
  \<^item> The transport is an object supplied by the caller. It is a record of functions over
    an arbitrary transport state \<open>'t\<close>; each call returns a result or raises \<open>OSError\<close>,
    and may change the transport state either way.
  \<^item> Every call the driver makes to the platform is appended to a trace, whether it
    succeeds or raises, so that the bus traffic of a method can be read off.
  \<^item> An exception is a value \<open>Inl e\<close>; it ends the method at the call that raised it.
\<close>

subsection \<open>Register map and setting constants\<close>

definition TEMP_LOW :: int where "TEMP_LOW = 0x00"
definition TEMP_HIGH :: int where "TEMP_HIGH = 0x01"
definition HUMID_LOW :: int where "HUMID_LOW = 0x02"
definition HUMID_HIGH :: int where "HUMID_HIGH = 0x03"
definition INTERRUPT_DRDY :: int where "INTERRUPT_DRDY = 0x04"
definition TEMP_MAX :: int where "TEMP_MAX = 0x05"
definition HUMID_MAX :: int where "HUMID_MAX = 0x06"
definition INTERRUPT_CONFIG :: int where "INTERRUPT_CONFIG = 0x07"
definition TEMP_OFFSET_ADJ :: int where "TEMP_OFFSET_ADJ = 0x08"
definition HUM_OFFSET_ADJ :: int where "HUM_OFFSET_ADJ = 0x09"
definition TEMP_THR_L :: int where "TEMP_THR_L = 0x0A"
definition TEMP_THR_H :: int where "TEMP_THR_H = 0x0B"
definition HUMID_THR_L :: int where "HUMID_THR_L = 0x0C"
definition HUMID_THR_H :: int where "HUMID_THR_H = 0x0D"
definition CONFIG :: int where "CONFIG = 0x0E"
definition MEAS_CFG :: int where "MEAS_CFG = 0x0F"
definition MID_L :: int where "MID_L = 0xFC"
definition MID_H :: int where "MID_H = 0xFD"
definition DEVICE_ID_L :: int where "DEVICE_ID_L = 0xFE"
definition DEVICE_ID_H :: int where "DEVICE_ID_H = 0xFF"

definition FOURTEEN_BIT :: int where "FOURTEEN_BIT = 0"
definition ELEVEN_BIT :: int where "ELEVEN_BIT = 1"
definition NINE_BIT :: int where "NINE_BIT = 2"

definition TEMP_AND_HUMID :: int where "TEMP_AND_HUMID = 0"
definition TEMP_ONLY :: int where "TEMP_ONLY = 1"
definition HUMID_ONLY :: int where "HUMID_ONLY = 2"

definition MANUAL :: int where "MANUAL = 0"
definition TWO_MINS :: int where "TWO_MINS = 1"
definition ONE_MINS :: int where "ONE_MINS = 2"
definition TEN_SECONDS :: int where "TEN_SECONDS = 3"
definition FIVE_SECONDS :: int where "FIVE_SECONDS = 4"
definition ONE_HZ :: int where "ONE_HZ = 5"
definition TWO_HZ :: int where "TWO_HZ = 6"
definition FIVE_HZ :: int where "FIVE_HZ = 7"

definition ACTIVE_LOW :: int where "ACTIVE_LOW = 0"
definition ACTIVE_HIGH :: int where "ACTIVE_HIGH = 1"

definition LEVEL_MODE :: int where "LEVEL_MODE = 0"
definition COMPARATOR_MODE :: int where "COMPARATOR_MODE = 1"

subsection \<open>The platform: transport, trace, exceptions\<close>

datatype error = OSError | ValueError | OverflowError | ZeroDivisionError

type_synonym byte = "8 word"

text \<open>
  \<open>machine.I2C\<close> as the driver uses it. \<open>readfrom_mem addr reg nbytes\<close> and
  \<open>writeto_mem addr reg buf\<close> run one bus transaction each.
\<close>

record 't I2C =
  scan :: "'t \<Rightarrow> (error + int list) \<times> 't"
  readfrom_mem :: "int \<Rightarrow> int \<Rightarrow> nat \<Rightarrow> 't \<Rightarrow> (error + byte list) \<times> 't"
  writeto_mem :: "int \<Rightarrow> int \<Rightarrow> byte list \<Rightarrow> 't \<Rightarrow> (error + unit) \<times> 't"

text \<open>The calls a method makes to the platform, in order.\<close>

datatype event =
  Scan
  | Read int int nat
  | Write int int "byte list"
  | Sleep int

record 't world =
  bus :: 't
  trace :: "event list"

type_synonym ('t, 'a) io = "'t world \<Rightarrow> (error + 'a) \<times> 't world"

definition ret :: "'a \<Rightarrow> ('t, 'a) io" where
  "ret x w = (Inr x, w)"

text \<open>Sequencing: an exception in the first part skips the rest.\<close>

definition bnd :: "('t, 'a) io \<Rightarrow> ('a \<Rightarrow> ('t, 'b) io) \<Rightarrow> ('t, 'b) io" where
  "bnd m k w = (case m w of (Inl e, w') \<Rightarrow> (Inl e, w') | (Inr x, w') \<Rightarrow> k x w')"

definition sleep_ms :: "int \<Rightarrow> ('t, unit) io" where
  "sleep_ms ms w = (Inr (), w\<lparr>trace := trace w @ [Sleep ms]\<rparr>)"

text \<open>\<open>int.from_bytes(bs, "little")\<close>\<close>

fun from_bytes_little :: "byte list \<Rightarrow> int" where
  "from_bytes_little [] = 0"
| "from_bytes_little (b # bs) = uint b + 256 * from_bytes_little bs"

text \<open>A computation that only returns or raises.\<close>

definition result :: "error + 'a \<Rightarrow> ('t, 'a) io" where
  "result r w = (r, w)"

subsection \<open>Floats\<close>

text \<open>
  The two formats: precision in bits, and the least and greatest exponent of a normal
  number.
\<close>

datatype float_format = Binary32 | Binary64

fun precision :: "float_format \<Rightarrow> nat" where
  "precision Binary32 = 24"
| "precision Binary64 = 53"

fun emin :: "float_format \<Rightarrow> int" where
  "emin Binary32 = - 126"
| "emin Binary64 = - 1022"

fun emax :: "float_format \<Rightarrow> int" where
  "emax Binary32 = 127"
| "emax Binary64 = 1023"

definition pow2 :: "int \<Rightarrow> real" where
  "pow2 k = (if 0 \<le> k then 2 ^ nat k else 1 / 2 ^ nat (- k))"

text \<open>The binary exponent of a number other than zero: the \<open>k\<close> with \<open>2^k \<le> |x| < 2^(k+1)\<close>.\<close>

definition fexp :: "real \<Rightarrow> int" where
  "fexp x = (if 1 \<le> \<bar>x\<bar> then bitlen \<lfloor>\<bar>x\<bar>\<rfloor> - 1 else - bitlen (\<lceil>1 / \<bar>x\<bar>\<rceil> - 1))"

text \<open>The nearest integer, the even one of two that are equally near.\<close>

definition round_even :: "real \<Rightarrow> int" where
  "round_even q =
     (let f = \<lfloor>q\<rfloor>; d = q - real_of_int f
      in if d < 1 / 2 then f else if 1 / 2 < d then f + 1 else if even f then f else f + 1)"

text \<open>
  Rounding to the format: to the nearest multiple of the unit in the last place of \<open>x\<close>,
  which below the normal range is the least subnormal number.
\<close>

definition fround :: "float_format \<Rightarrow> real \<Rightarrow> real" where
  "fround fmt x =
     (if x = 0 then 0
      else let u = pow2 (max (fexp x) (emin fmt) - int (precision fmt) + 1)
           in real_of_int (round_even (x / u)) * u)"

definition largest :: "float_format \<Rightarrow> real" where
  "largest fmt = (2 ^ precision fmt - 1) * pow2 (emax fmt - int (precision fmt) + 1)"

text \<open>
  A float. The sign of zero is not represented: nothing in the driver can tell the two
  zeros apart.
\<close>

datatype pyfloat = Finite real | PosInf | NegInf | NaN

text \<open>The float for an exact result: rounded, an infinity when that is beyond the format.\<close>

definition finish :: "float_format \<Rightarrow> real \<Rightarrow> pyfloat" where
  "finish fmt x =
     (let r = fround fmt x
      in if largest fmt < r then PosInf else if r < - largest fmt then NegInf else Finite r)"

text \<open>\<open>a < b\<close>; \<open>a > b\<close> is \<open>b < a\<close>. A comparison with NaN is false.\<close>

fun fless :: "pyfloat \<Rightarrow> pyfloat \<Rightarrow> bool" where
  "fless NaN b = False"
| "fless a NaN = False"
| "fless (Finite x) (Finite y) = (x < y)"
| "fless (Finite x) PosInf = True"
| "fless NegInf (Finite y) = True"
| "fless NegInf PosInf = True"
| "fless a b = False"

text \<open>\<open>a <= b\<close>\<close>

definition fle :: "pyfloat \<Rightarrow> pyfloat \<Rightarrow> bool" where
  "fle a b = (a \<noteq> NaN \<and> b \<noteq> NaN \<and> \<not> fless b a)"

text \<open>\<open>a + b\<close>\<close>

fun fadd :: "float_format \<Rightarrow> pyfloat \<Rightarrow> pyfloat \<Rightarrow> pyfloat" where
  "fadd fmt NaN b = NaN"
| "fadd fmt a NaN = NaN"
| "fadd fmt (Finite x) (Finite y) = finish fmt (x + y)"
| "fadd fmt PosInf NegInf = NaN"
| "fadd fmt NegInf PosInf = NaN"
| "fadd fmt (Finite x) b = b"
| "fadd fmt a b = a"

fun fsign :: "pyfloat \<Rightarrow> real" where
  "fsign (Finite x) = sgn x"
| "fsign PosInf = 1"
| "fsign NegInf = - 1"
| "fsign NaN = 0"

text \<open>\<open>a * b\<close>\<close>

fun fmul :: "float_format \<Rightarrow> pyfloat \<Rightarrow> pyfloat \<Rightarrow> pyfloat" where
  "fmul fmt NaN b = NaN"
| "fmul fmt a NaN = NaN"
| "fmul fmt (Finite x) (Finite y) = finish fmt (x * y)"
| "fmul fmt a b =
     (if fsign a * fsign b = 0 then NaN else if 0 < fsign a * fsign b then PosInf else NegInf)"

text \<open>\<open>a / b\<close>, which raises when \<open>b\<close> is zero.\<close>

fun fdiv :: "float_format \<Rightarrow> pyfloat \<Rightarrow> pyfloat \<Rightarrow> error + pyfloat" where
  "fdiv fmt a (Finite y) =
     (if y = 0 then Inl ZeroDivisionError
      else case a of
        Finite x \<Rightarrow> Inr (finish fmt (x / y))
      | NaN \<Rightarrow> Inr NaN
      | _ \<Rightarrow> Inr (if 0 < fsign a * sgn y then PosInf else NegInf))"
| "fdiv fmt a NaN = Inr NaN"
| "fdiv fmt (Finite x) b = Inr (Finite 0)"
| "fdiv fmt a b = Inr NaN"

text \<open>
  \<open>int(x)\<close> on a float truncates towards zero; it raises \<open>ValueError\<close> on NaN and
  \<open>OverflowError\<close> on an infinity.
\<close>

fun float_to_int :: "pyfloat \<Rightarrow> error + int" where
  "float_to_int (Finite x) = Inr (if 0 \<le> x then \<lfloor>x\<rfloor> else \<lceil>x\<rceil>)"
| "float_to_int NaN = Inl ValueError"
| "float_to_int a = Inl OverflowError"

subsection \<open>The class\<close>

record 't HDC2080 =
  i2c :: "'t I2C"
  addr :: int

definition is_connected :: "'t HDC2080 \<Rightarrow> ('t, bool) io" where
  "is_connected self w =
     (case scan (i2c self) (bus w) of (r, t) \<Rightarrow>
        (case r of Inl e \<Rightarrow> Inl e | Inr found \<Rightarrow> Inr (addr self \<in> set found),
         \<lparr>bus = t, trace = trace w @ [Scan]\<rparr>))"

definition write_reg :: "'t HDC2080 \<Rightarrow> int \<Rightarrow> int \<Rightarrow> ('t, unit) io" where
  "write_reg self reg val w =
     (let buf = [word_of_int (val AND 0xFF)] in
      case writeto_mem (i2c self) (addr self) reg buf (bus w) of (r, t) \<Rightarrow>
        (r, \<lparr>bus = t, trace = trace w @ [Write (addr self) reg buf]\<rparr>))"

definition read_reg :: "'t HDC2080 \<Rightarrow> int \<Rightarrow> ('t, int) io" where
  "read_reg self reg w =
     (case readfrom_mem (i2c self) (addr self) reg 1 (bus w) of (r, t) \<Rightarrow>
        (case r of Inl e \<Rightarrow> Inl e | Inr bs \<Rightarrow> Inr (from_bytes_little bs),
         \<lparr>bus = t, trace = trace w @ [Read (addr self) reg 1]\<rparr>))"

paragraph \<open>Temperature / humidity\<close>

definition read_temp :: "'t HDC2080 \<Rightarrow> ('t, real) io" where
  "read_temp self =
     bnd (read_reg self TEMP_LOW) (\<lambda>low.
     bnd (read_reg self TEMP_HIGH) (\<lambda>high.
       let raw = push_bit 8 high OR low;
           f = real_of_int raw;
           f = (f * 165 / 65536) - 40.5
       in ret f))"

definition read_humidity :: "'t HDC2080 \<Rightarrow> ('t, real) io" where
  "read_humidity self =
     bnd (read_reg self HUMID_LOW) (\<lambda>low.
     bnd (read_reg self HUMID_HIGH) (\<lambda>high.
       let raw = push_bit 8 high OR low;
           f = real_of_int raw;
           f = f / 65536 * 100
       in ret f))"

paragraph \<open>Offset registers\<close>

definition read_temp_offset_adjust :: "'t HDC2080 \<Rightarrow> ('t, int) io" where
  "read_temp_offset_adjust self = read_reg self TEMP_OFFSET_ADJ"

definition set_temp_offset_adjust :: "'t HDC2080 \<Rightarrow> int \<Rightarrow> ('t, int) io" where
  "set_temp_offset_adjust self val =
     bnd (write_reg self TEMP_OFFSET_ADJ val) (\<lambda>_. read_temp_offset_adjust self)"

definition read_humidity_offset_adjust :: "'t HDC2080 \<Rightarrow> ('t, int) io" where
  "read_humidity_offset_adjust self = read_reg self HUM_OFFSET_ADJ"

definition set_humidity_offset_adjust :: "'t HDC2080 \<Rightarrow> int \<Rightarrow> ('t, int) io" where
  "set_humidity_offset_adjust self val =
     bnd (write_reg self HUM_OFFSET_ADJ val) (\<lambda>_. read_humidity_offset_adjust self)"

paragraph \<open>Heater\<close>

definition enable_heater :: "'t HDC2080 \<Rightarrow> ('t, unit) io" where
  "enable_heater self =
     bnd (read_reg self CONFIG) (\<lambda>c. write_reg self CONFIG (c OR 0x08))"

definition disable_heater :: "'t HDC2080 \<Rightarrow> ('t, unit) io" where
  "disable_heater self =
     bnd (read_reg self CONFIG) (\<lambda>c. write_reg self CONFIG (c AND 0xF7))"

paragraph \<open>Thresholds\<close>

definition set_low_temp :: "float_format \<Rightarrow> 't HDC2080 \<Rightarrow> pyfloat \<Rightarrow> ('t, unit) io" where
  "set_low_temp fmt self temp_c =
     (let temp_c = (if fless temp_c (Finite (- 40)) then Finite (- 40)
                    else if fless (Finite 125) temp_c then Finite 125 else temp_c)
      in bnd (result (fdiv fmt (fmul fmt (Finite 256) (fadd fmt temp_c (Finite 40))) (Finite 165)))
           (\<lambda>q. bnd (result (float_to_int q))
             (\<lambda>n. write_reg self TEMP_THR_L (n AND 0xFF))))"

definition set_high_temp :: "float_format \<Rightarrow> 't HDC2080 \<Rightarrow> pyfloat \<Rightarrow> ('t, unit) io" where
  "set_high_temp fmt self temp_c =
     (let temp_c = (if fless temp_c (Finite (- 40)) then Finite (- 40)
                    else if fless (Finite 125) temp_c then Finite 125 else temp_c)
      in bnd (result (fdiv fmt (fmul fmt (Finite 256) (fadd fmt temp_c (Finite 40))) (Finite 165)))
           (\<lambda>q. bnd (result (float_to_int q))
             (\<lambda>n. write_reg self TEMP_THR_H (n AND 0xFF))))"

definition set_high_humidity :: "float_format \<Rightarrow> 't HDC2080 \<Rightarrow> pyfloat \<Rightarrow> ('t, unit) io" where
  "set_high_humidity fmt self rh =
     (let rh = (if fless rh (Finite 0) then Finite 0
                else if fless (Finite 100) rh then Finite 100 else rh)
      in bnd (result (fdiv fmt (fmul fmt (Finite 256) rh) (Finite 100)))
           (\<lambda>q. bnd (result (float_to_int q))
             (\<lambda>n. write_reg self HUMID_THR_H (n AND 0xFF))))"

definition set_low_humidity :: "float_format \<Rightarrow> 't HDC2080 \<Rightarrow> pyfloat \<Rightarrow> ('t, unit) io" where
  "set_low_humidity fmt self rh =
     (let rh = (if fless rh (Finite 0) then Finite 0
                else if fless (Finite 100) rh then Finite 100 else rh)
      in bnd (result (fdiv fmt (fmul fmt (Finite 256) rh) (Finite 100)))
           (\<lambda>q. bnd (result (float_to_int q))
             (\<lambda>n. write_reg self HUMID_THR_L (n AND 0xFF))))"

definition read_low_humidity_threshold :: "'t HDC2080 \<Rightarrow> ('t, real) io" where
  "read_low_humidity_threshold self =
     bnd (read_reg self HUMID_THR_L) (\<lambda>v. ret (real_of_int v * 100 / 256))"

definition read_high_humidity_threshold :: "'t HDC2080 \<Rightarrow> ('t, real) io" where
  "read_high_humidity_threshold self =
     bnd (read_reg self HUMID_THR_H) (\<lambda>v. ret (real_of_int v * 100 / 256))"

definition read_low_temp_threshold :: "'t HDC2080 \<Rightarrow> ('t, real) io" where
  "read_low_temp_threshold self =
     bnd (read_reg self TEMP_THR_L) (\<lambda>v. ret (real_of_int v * 165 / 256 - 40))"

definition read_high_temp_threshold :: "'t HDC2080 \<Rightarrow> ('t, real) io" where
  "read_high_temp_threshold self =
     bnd (read_reg self TEMP_THR_H) (\<lambda>v. ret (real_of_int v * 165 / 256 - 40))"

paragraph \<open>Resolution\<close>

definition set_temp_res :: "'t HDC2080 \<Rightarrow> int \<Rightarrow> ('t, unit) io" where
  "set_temp_res self resolution =
     bnd (read_reg self MEAS_CFG) (\<lambda>c.
       let c = (if resolution = FOURTEEN_BIT then c AND 0x3F
                else if resolution = ELEVEN_BIT then (c AND 0x7F) OR 0x40
                else if resolution = NINE_BIT then (c AND 0xBF) OR 0x80
                else c AND 0x3F)
       in write_reg self MEAS_CFG c)"

definition set_humid_res :: "'t HDC2080 \<Rightarrow> int \<Rightarrow> ('t, unit) io" where
  "set_humid_res self resolution =
     bnd (read_reg self MEAS_CFG) (\<lambda>c.
       let c = (if resolution = FOURTEEN_BIT then c AND 0xCF
                else if resolution = ELEVEN_BIT then (c AND 0xDF) OR 0x10
                else if resolution = NINE_BIT then (c AND 0xEF) OR 0x20
                else c AND 0xCF)
       in write_reg self MEAS_CFG c)"

paragraph \<open>Measurement mode, trigger, reset\<close>

definition set_measurement_mode :: "'t HDC2080 \<Rightarrow> int \<Rightarrow> ('t, unit) io" where
  "set_measurement_mode self mode =
     bnd (read_reg self MEAS_CFG) (\<lambda>c.
       let c = (if mode = TEMP_AND_HUMID then c AND 0xF9
                else if mode = TEMP_ONLY then (c AND 0xFC) OR 0x02
                else if mode = HUMID_ONLY then (c AND 0xFD) OR 0x04
                else c AND 0xF9)
       in write_reg self MEAS_CFG c)"

definition trigger_measurement :: "'t HDC2080 \<Rightarrow> ('t, unit) io" where
  "trigger_measurement self =
     bnd (read_reg self MEAS_CFG) (\<lambda>c. write_reg self MEAS_CFG (c OR 0x01))"

definition reset :: "'t HDC2080 \<Rightarrow> ('t, unit) io" where
  "reset self =
     bnd (read_reg self CONFIG) (\<lambda>c.
     bnd (write_reg self CONFIG (c OR 0x80)) (\<lambda>_.
       sleep_ms 50))"

paragraph \<open>Interrupt pin, rate, polarity, mode\<close>

definition enable_interrupt :: "'t HDC2080 \<Rightarrow> ('t, unit) io" where
  "enable_interrupt self =
     bnd (read_reg self CONFIG) (\<lambda>c. write_reg self CONFIG (c OR 0x04))"

definition disable_interrupt :: "'t HDC2080 \<Rightarrow> ('t, unit) io" where
  "disable_interrupt self =
     bnd (read_reg self CONFIG) (\<lambda>c. write_reg self CONFIG (c AND 0xFB))"

definition set_rate :: "'t HDC2080 \<Rightarrow> int \<Rightarrow> ('t, unit) io" where
  "set_rate self rate =
     bnd (read_reg self CONFIG) (\<lambda>c.
       let c = (if rate = MANUAL then c AND 0x8F
                else if rate = TWO_MINS then (c AND 0x9F) OR 0x10
                else if rate = ONE_MINS then (c AND 0xAF) OR 0x20
                else if rate = TEN_SECONDS then (c AND 0xBF) OR 0x30
                else if rate = FIVE_SECONDS then (c AND 0xCF) OR 0x40
                else if rate = ONE_HZ then (c AND 0xDF) OR 0x50
                else if rate = TWO_HZ then (c AND 0xEF) OR 0x60
                else if rate = FIVE_HZ then c OR 0x70
                else c AND 0x8F)
       in write_reg self CONFIG c)"

definition set_interrupt_polarity :: "'t HDC2080 \<Rightarrow> int \<Rightarrow> ('t, unit) io" where
  "set_interrupt_polarity self polarity =
     bnd (read_reg self CONFIG) (\<lambda>c.
       let c = (if polarity = ACTIVE_LOW then c AND 0xFD
                else if polarity = ACTIVE_HIGH then c OR 0x02
                else c AND 0xFD)
       in write_reg self CONFIG c)"

definition set_interrupt_mode :: "'t HDC2080 \<Rightarrow> int \<Rightarrow> ('t, unit) io" where
  "set_interrupt_mode self mode =
     bnd (read_reg self CONFIG) (\<lambda>c.
       let c = (if mode = LEVEL_MODE then c AND 0xFE
                else if mode = COMPARATOR_MODE then c OR 0x01
                else c AND 0xFE)
       in write_reg self CONFIG c)"

definition read_interrupt_status :: "'t HDC2080 \<Rightarrow> ('t, int) io" where
  "read_interrupt_status self = read_reg self INTERRUPT_DRDY"

paragraph \<open>Max values\<close>

definition clear_max_temp :: "'t HDC2080 \<Rightarrow> ('t, unit) io" where
  "clear_max_temp self = write_reg self TEMP_MAX 0x00"

definition clear_max_humidity :: "'t HDC2080 \<Rightarrow> ('t, unit) io" where
  "clear_max_humidity self = write_reg self HUMID_MAX 0x00"

definition read_max_temp :: "'t HDC2080 \<Rightarrow> ('t, real) io" where
  "read_max_temp self =
     bnd (read_reg self TEMP_MAX) (\<lambda>v. ret (real_of_int v * 165 / 256 - 40))"

definition read_max_humidity :: "'t HDC2080 \<Rightarrow> ('t, real) io" where
  "read_max_humidity self =
     bnd (read_reg self HUMID_MAX) (\<lambda>v. ret (real_of_int v / 256 * 100))"

paragraph \<open>Threshold and data-ready interrupts\<close>

definition enable_threshold_interrupt :: "'t HDC2080 \<Rightarrow> ('t, unit) io" where
  "enable_threshold_interrupt self =
     bnd (read_reg self INTERRUPT_CONFIG) (\<lambda>c. write_reg self INTERRUPT_CONFIG (c OR 0x78))"

definition disable_threshold_interrupt :: "'t HDC2080 \<Rightarrow> ('t, unit) io" where
  "disable_threshold_interrupt self =
     bnd (read_reg self INTERRUPT_CONFIG) (\<lambda>c. write_reg self INTERRUPT_CONFIG (c AND 0x87))"

definition enable_drdy_interrupt :: "'t HDC2080 \<Rightarrow> ('t, unit) io" where
  "enable_drdy_interrupt self =
     bnd (read_reg self INTERRUPT_CONFIG) (\<lambda>c. write_reg self INTERRUPT_CONFIG (c OR 0x80))"

definition disable_drdy_interrupt :: "'t HDC2080 \<Rightarrow> ('t, unit) io" where
  "disable_drdy_interrupt self =
     bnd (read_reg self INTERRUPT_CONFIG) (\<lambda>c. write_reg self INTERRUPT_CONFIG (c AND 0x7F))"

subsection \<open>Two transports to run the driver against\<close>

text \<open>
  A register bank: one device at bus address \<open>dev\<close>, whose registers are a function from
  register offset to byte. A read returns the bytes stored from \<open>reg\<close> on, a write stores
  its bytes from \<open>reg\<close> on, and a transaction to any other address is not acknowledged.
\<close>

type_synonym regs = "int \<Rightarrow> byte"

fun store :: "int \<Rightarrow> byte list \<Rightarrow> regs \<Rightarrow> regs" where
  "store reg [] t = t"
| "store reg (b # bs) t = store (reg + 1) bs (t(reg := b))"

definition bank :: "int \<Rightarrow> regs I2C" where
  "bank dev =
     \<lparr>scan = (\<lambda>t. (Inr [dev], t)),
      readfrom_mem = (\<lambda>a reg n t.
        if a = dev then (Inr (map (\<lambda>i. t (reg + int i)) [0..<n]), t) else (Inl OSError, t)),
      writeto_mem = (\<lambda>a reg buf t.
        if a = dev then (Inr (), store reg buf t) else (Inl OSError, t))\<rparr>"

text \<open>
  The same bank behind a bus that completes \<open>k\<close> more transactions and then fails every
  one: the state is the pair of \<open>k\<close> and the registers.
\<close>

fun flaky_read :: "int \<Rightarrow> int \<Rightarrow> int \<Rightarrow> nat \<Rightarrow> nat \<times> regs \<Rightarrow> (error + byte list) \<times> nat \<times> regs" where
  "flaky_read dev a reg n (k, t) =
     (if k = 0 then (Inl OSError, (k, t))
      else (fst (readfrom_mem (bank dev) a reg n t), (k - 1, snd (readfrom_mem (bank dev) a reg n t))))"

fun flaky_write :: "int \<Rightarrow> int \<Rightarrow> int \<Rightarrow> byte list \<Rightarrow> nat \<times> regs \<Rightarrow> (error + unit) \<times> nat \<times> regs" where
  "flaky_write dev a reg buf (k, t) =
     (if k = 0 then (Inl OSError, (k, t))
      else (fst (writeto_mem (bank dev) a reg buf t), (k - 1, snd (writeto_mem (bank dev) a reg buf t))))"

definition flaky :: "int \<Rightarrow> (nat \<times> regs) I2C" where
  "flaky dev =
     \<lparr>scan = (\<lambda>s. (Inr [dev], s)),
      readfrom_mem = flaky_read dev,
      writeto_mem = flaky_write dev\<rparr>"

text \<open>
  A driver constructed on the bank with the device's own address, one on the failing bus,
  and a world with an empty trace.
\<close>

definition sensor :: "int \<Rightarrow> regs HDC2080" where
  "sensor dev = \<lparr>i2c = bank dev, addr = dev\<rparr>"

definition flaky_sensor :: "int \<Rightarrow> (nat \<times> regs) HDC2080" where
  "flaky_sensor dev = \<lparr>i2c = flaky dev, addr = dev\<rparr>"

definition start :: "'t \<Rightarrow> 't world" where
  "start t = \<lparr>bus = t, trace = []\<rparr>"

subsection \<open>The public interface as a whole\<close>

text \<open>
  Every public method with its arguments, and one function that calls it in a runtime
  with the given float format. The results are Python values of different types.
\<close>

datatype pyval = PyNone | PyBool bool | PyInt int | PyFloat real

datatype op =
  Is_connected
  | Read_temp
  | Read_humidity
  | Read_temp_offset_adjust
  | Set_temp_offset_adjust int
  | Read_humidity_offset_adjust
  | Set_humidity_offset_adjust int
  | Enable_heater
  | Disable_heater
  | Set_low_temp pyfloat
  | Set_high_temp pyfloat
  | Set_high_humidity pyfloat
  | Set_low_humidity pyfloat
  | Read_low_humidity_threshold
  | Read_high_humidity_threshold
  | Read_low_temp_threshold
  | Read_high_temp_threshold
  | Set_temp_res int
  | Set_humid_res int
  | Set_measurement_mode int
  | Trigger_measurement
  | Reset
  | Enable_interrupt
  | Disable_interrupt
  | Set_rate int
  | Set_interrupt_polarity int
  | Set_interrupt_mode int
  | Read_interrupt_status
  | Clear_max_temp
  | Clear_max_humidity
  | Read_max_temp
  | Read_max_humidity
  | Enable_threshold_interrupt
  | Disable_threshold_interrupt
  | Enable_drdy_interrupt
  | Disable_drdy_interrupt

definition returning :: "('a \<Rightarrow> pyval) \<Rightarrow> ('t, 'a) io \<Rightarrow> ('t, pyval) io" where
  "returning f m = bnd m (\<lambda>x. ret (f x))"

fun call :: "float_format \<Rightarrow> 't HDC2080 \<Rightarrow> op \<Rightarrow> ('t, pyval) io" where
  "call fmt self Is_connected = returning PyBool (is_connected self)"
| "call fmt self Read_temp = returning PyFloat (read_temp self)"
| "call fmt self Read_humidity = returning PyFloat (read_humidity self)"
| "call fmt self Read_temp_offset_adjust = returning PyInt (read_temp_offset_adjust self)"
| "call fmt self (Set_temp_offset_adjust v) = returning PyInt (set_temp_offset_adjust self v)"
| "call fmt self Read_humidity_offset_adjust = returning PyInt (read_humidity_offset_adjust self)"
| "call fmt self (Set_humidity_offset_adjust v) = returning PyInt (set_humidity_offset_adjust self v)"
| "call fmt self Enable_heater = returning (\<lambda>_. PyNone) (enable_heater self)"
| "call fmt self Disable_heater = returning (\<lambda>_. PyNone) (disable_heater self)"
| "call fmt self (Set_low_temp t) = returning (\<lambda>_. PyNone) (set_low_temp fmt self t)"
| "call fmt self (Set_high_temp t) = returning (\<lambda>_. PyNone) (set_high_temp fmt self t)"
| "call fmt self (Set_high_humidity rh) = returning (\<lambda>_. PyNone) (set_high_humidity fmt self rh)"
| "call fmt self (Set_low_humidity rh) = returning (\<lambda>_. PyNone) (set_low_humidity fmt self rh)"
| "call fmt self Read_low_humidity_threshold = returning PyFloat (read_low_humidity_threshold self)"
| "call fmt self Read_high_humidity_threshold = returning PyFloat (read_high_humidity_threshold self)"
| "call fmt self Read_low_temp_threshold = returning PyFloat (read_low_temp_threshold self)"
| "call fmt self Read_high_temp_threshold = returning PyFloat (read_high_temp_threshold self)"
| "call fmt self (Set_temp_res r) = returning (\<lambda>_. PyNone) (set_temp_res self r)"
| "call fmt self (Set_humid_res r) = returning (\<lambda>_. PyNone) (set_humid_res self r)"
| "call fmt self (Set_measurement_mode m) = returning (\<lambda>_. PyNone) (set_measurement_mode self m)"
| "call fmt self Trigger_measurement = returning (\<lambda>_. PyNone) (trigger_measurement self)"
| "call fmt self Reset = returning (\<lambda>_. PyNone) (reset self)"
| "call fmt self Enable_interrupt = returning (\<lambda>_. PyNone) (enable_interrupt self)"
| "call fmt self Disable_interrupt = returning (\<lambda>_. PyNone) (disable_interrupt self)"
| "call fmt self (Set_rate r) = returning (\<lambda>_. PyNone) (set_rate self r)"
| "call fmt self (Set_interrupt_polarity p) = returning (\<lambda>_. PyNone) (set_interrupt_polarity self p)"
| "call fmt self (Set_interrupt_mode m) = returning (\<lambda>_. PyNone) (set_interrupt_mode self m)"
| "call fmt self Read_interrupt_status = returning PyInt (read_interrupt_status self)"
| "call fmt self Clear_max_temp = returning (\<lambda>_. PyNone) (clear_max_temp self)"
| "call fmt self Clear_max_humidity = returning (\<lambda>_. PyNone) (clear_max_humidity self)"
| "call fmt self Read_max_temp = returning PyFloat (read_max_temp self)"
| "call fmt self Read_max_humidity = returning PyFloat (read_max_humidity self)"
| "call fmt self Enable_threshold_interrupt = returning (\<lambda>_. PyNone) (enable_threshold_interrupt self)"
| "call fmt self Disable_threshold_interrupt = returning (\<lambda>_. PyNone) (disable_threshold_interrupt self)"
| "call fmt self Enable_drdy_interrupt = returning (\<lambda>_. PyNone) (enable_drdy_interrupt self)"
| "call fmt self Disable_drdy_interrupt = returning (\<lambda>_. PyNone) (disable_drdy_interrupt self)"

text \<open>
  A caller's whole session: any sequence of calls, going on after a call that raised
  (as a caller that catches the exception would).
\<close>

fun calls :: "float_format \<Rightarrow> 't HDC2080 \<Rightarrow> op list \<Rightarrow> 't world \<Rightarrow> 't world" where
  "calls fmt self [] w = w"
| "calls fmt self (c # cs) w = calls fmt self cs (snd (call fmt self c w))"

subsection \<open>Reading a trace\<close>

text \<open>The register offsets that the writes of a trace address, in order.\<close>

fun write_targets :: "event list \<Rightarrow> int list" where
  "write_targets [] = []"
| "write_targets (Write a reg buf # es) = reg # write_targets es"
| "write_targets (e # es) = write_targets es"

text \<open>The bus transactions of a trace: everything but the sleeps.\<close>

fun is_transaction :: "event \<Rightarrow> bool" where
  "is_transaction (Sleep ms) = False"
| "is_transaction e = True"

definition transactions :: "event list \<Rightarrow> event list" where
  "transactions es = filter is_transaction es"

text \<open>
  A write is in the configuration block when its register offset is one of 0x00 to 0x0F.
  A computation issues only events with a property when, from every world, it extends the
  trace by such events alone.
\<close>

fun in_config_block :: "event \<Rightarrow> bool" where
  "in_config_block (Write a reg buf) = (0x00 \<le> reg \<and> reg \<le> 0x0F)"
| "in_config_block e = True"

definition issues_only :: "(event \<Rightarrow> bool) \<Rightarrow> ('t, 'a) io \<Rightarrow> bool" where
  "issues_only P m = (\<forall>w. \<exists>es. trace (snd (m w)) = trace w @ es \<and> list_all P es)"

text \<open>The bit positions in which two bytes differ.\<close>

definition differing_bits :: "byte \<Rightarrow> byte \<Rightarrow> nat list" where
  "differing_bits a b = filter (\<lambda>n. bit a n \<noteq> bit b n) [0..<8]"


section \<open>Basic facts\<close>

lemmas reg_defs =
  TEMP_LOW_def TEMP_HIGH_def HUMID_LOW_def HUMID_HIGH_def INTERRUPT_DRDY_def TEMP_MAX_def
  HUMID_MAX_def INTERRUPT_CONFIG_def TEMP_OFFSET_ADJ_def HUM_OFFSET_ADJ_def TEMP_THR_L_def
  TEMP_THR_H_def HUMID_THR_L_def HUMID_THR_H_def CONFIG_def MEAS_CFG_def

lemmas setting_defs =
  FOURTEEN_BIT_def ELEVEN_BIT_def NINE_BIT_def TEMP_AND_HUMID_def TEMP_ONLY_def
  HUMID_ONLY_def MANUAL_def TWO_MINS_def ONE_MINS_def TEN_SECONDS_def FIVE_SECONDS_def
  ONE_HZ_def TWO_HZ_def FIVE_HZ_def ACTIVE_LOW_def ACTIVE_HIGH_def LEVEL_MODE_def
  COMPARATOR_MODE_def

lemma byte_mask: "(word_of_int (v AND 0xFF) :: byte) = word_of_int v"
proof -
  have "v AND 0xFF = take_bit 8 v" by (simp add: take_bit_eq_mask mask_eq_exp_minus_1)
  then show ?thesis by (simp add: word_of_int_eq_iff)
qed

lemma raw16: "push_bit 8 (uint (h::byte)) OR uint (l::byte) = 256 * uint h + uint l"
proof -
  have "push_bit 8 (uint h) + uint l = push_bit 8 (uint h) OR uint l"
    by (rule disjunctive_add) (auto simp: bit_push_bit_iff bit_uint_iff)
  then show ?thesis by (simp add: push_bit_eq_mult)
qed

lemma read_reg_ok:
  "readfrom_mem (i2c self) (addr self) reg 1 (bus w) = (Inr [b], t) \<Longrightarrow>
   read_reg self reg w = (Inr (uint b), \<lparr>bus = t, trace = trace w @ [Read (addr self) reg 1]\<rparr>)"
  by (simp add: read_reg_def)

lemma read_reg_fail:
  "readfrom_mem (i2c self) (addr self) reg 1 (bus w) = (Inl e, t) \<Longrightarrow>
   read_reg self reg w = (Inl e, \<lparr>bus = t, trace = trace w @ [Read (addr self) reg 1]\<rparr>)"
  by (simp add: read_reg_def)

lemma write_reg_eq:
  "write_reg self reg v w =
     (fst (writeto_mem (i2c self) (addr self) reg [word_of_int v] (bus w)),
      \<lparr>bus = snd (writeto_mem (i2c self) (addr self) reg [word_of_int v] (bus w)),
       trace = trace w @ [Write (addr self) reg [word_of_int v]]\<rparr>)"
  by (simp add: write_reg_def Let_def byte_mask split: prod.splits)

text \<open>On the register bank every transaction to the device succeeds.\<close>

lemma bank_read:
  "read_reg (sensor dev) reg w =
     (Inr (uint (bus w reg)), \<lparr>bus = bus w, trace = trace w @ [Read dev reg 1]\<rparr>)"
  by (simp add: read_reg_def sensor_def bank_def)

lemma bank_write:
  "write_reg (sensor dev) reg v w =
     (Inr (), \<lparr>bus = (bus w)(reg := word_of_int v),
               trace = trace w @ [Write dev reg [word_of_int v]]\<rparr>)"
  by (simp add: write_reg_eq sensor_def bank_def)

section \<open>Measurement conversion\<close>

text \<open>
  C1. Whatever bytes \<open>low\<close> and \<open>high\<close> the transport returns for registers 0x00 and 0x01,
  \<open>read_temp\<close> returns \<open>raw * 165 / 65536 - 40.5\<close> for the unsigned 16-bit integer \<open>raw\<close>
  with \<open>high\<close> as its upper and \<open>low\<close> as its lower byte, after exactly these two reads.
\<close>

theorem read_temp_formula:
  assumes "readfrom_mem (i2c self) (addr self) TEMP_LOW 1 (bus w) = (Inr [low], t1)"
      and "readfrom_mem (i2c self) (addr self) TEMP_HIGH 1 t1 = (Inr [high], t2)"
  shows "read_temp self w =
           (Inr (real_of_int (256 * uint high + uint low) * 165 / 65536 - 40.5),
            \<lparr>bus = t2, trace = trace w @ [Read (addr self) 0x00 1, Read (addr self) 0x01 1]\<rparr>)"
  using assms
  by (simp add: read_temp_def bnd_def read_reg_def ret_def raw16 TEMP_LOW_def TEMP_HIGH_def)

theorem read_temp_formula_witness:
  "readfrom_mem (i2c (sensor 0x40)) (addr (sensor 0x40)) TEMP_LOW 1
     (bus (start ((\<lambda>_. 0)(0 := 0x34, 1 := 0x12)))) = (Inr [0x34], (\<lambda>_. 0)(0 := 0x34, 1 := 0x12))
   \<and> readfrom_mem (i2c (sensor 0x40)) (addr (sensor 0x40)) TEMP_HIGH 1
     ((\<lambda>_. 0)(0 := 0x34, 1 := 0x12)) = (Inr [0x12], (\<lambda>_. 0)(0 := 0x34, 1 := 0x12))
   \<and> fst (read_temp (sensor 0x40) (start ((\<lambda>_. 0)(0 := 0x34, 1 := 0x12)))) = Inr (- (471327 / 16384))"
proof -
  let ?t = "(\<lambda>_. 0)(0 := 0x34, 1 := 0x12) :: regs"
  have h1: "readfrom_mem (i2c (sensor 0x40)) (addr (sensor 0x40)) TEMP_LOW 1 (bus (start ?t))
              = (Inr [0x34], ?t)"
    by (simp add: sensor_def bank_def start_def TEMP_LOW_def)
  have h2: "readfrom_mem (i2c (sensor 0x40)) (addr (sensor 0x40)) TEMP_HIGH 1 ?t
              = (Inr [0x12], ?t)"
    by (simp add: sensor_def bank_def TEMP_HIGH_def)
  show ?thesis
    using h1 h2 read_temp_formula [OF h1 h2] by simp
qed

text \<open>
  The model computes on \<open>real\<close>. For this formula a binary float computes the same value:
  \<open>raw * 165\<close> is an integer below \<open>2 ^ 24\<close>, the division is by a power of two, and
  the result is an integer of magnitude below \<open>2 ^ 24\<close> over \<open>2 ^ 16\<close>, so no step
  rounds, in single or in double precision.
\<close>

lemma raw_bounds:
  fixes h l :: int
  assumes "0 \<le> l" "l < 256" "0 \<le> h" "h < 256"
  shows "0 \<le> 256 * h + l" "256 * h + l < 65536" "(256 * h + l) * 165 < 2 ^ 24"
    "\<bar>(256 * h + l) * 165 - 2654208\<bar> < 2 ^ 24"
  using assms by (simp_all add: abs_less_iff)

lemma read_temp_no_rounding:
  fixes high low :: byte
  defines "raw \<equiv> 256 * uint high + uint low"
  shows "0 \<le> raw" and "raw < 65536" and "raw * 165 < 2 ^ 24"
    and "real_of_int raw * 165 / 65536 - 40.5 = real_of_int (raw * 165 - 2654208) / 2 ^ 16"
    and "\<bar>raw * 165 - 2654208\<bar> < 2 ^ 24"
proof -
  have b: "0 \<le> uint low" "uint low < 256" "0 \<le> uint high" "uint high < 256"
    using uint_lt2p [of low] uint_lt2p [of high] by simp_all
  show "0 \<le> raw" "raw < 65536" "raw * 165 < 2 ^ 24" "\<bar>raw * 165 - 2654208\<bar> < 2 ^ 24"
    unfolding raw_def by (rule raw_bounds [OF b])+
  show "real_of_int raw * 165 / 65536 - 40.5 = real_of_int (raw * 165 - 2654208) / 2 ^ 16"
    by (simp add: field_simps)
qed

section \<open>Configuration setters\<close>

text \<open>
  A setter reads its register, changes the value and writes it back. On the register bank
  the byte written is the new content of the register.
\<close>

lemma bank_rmw:
  "bnd (read_reg (sensor dev) reg) (\<lambda>c. write_reg (sensor dev) reg (f c)) w =
     (Inr (), \<lparr>bus = (bus w)(reg := word_of_int (f (uint (bus w reg)))),
               trace = trace w @ [Read dev reg 1, Write dev reg [word_of_int (f (uint (bus w reg)))]]\<rparr>)"
  by (simp add: bnd_def bank_read bank_write)

lemma bit_0x78: "bit (0x78 :: byte) n \<longleftrightarrow> n \<in> {3, 4, 5, 6}"
proof (cases "n < 8")
  case True
  then have "n \<in> {0, 1, 2, 3, 4, 5, 6, 7}" by auto
  then show ?thesis by (elim insertE) simp_all
next
  case False
  then show ?thesis by (auto dest: bit_imp_le_length)
qed

lemma differing_or_0x78: "set (differing_bits c (c OR 0x78)) \<subseteq> {3, 4, 5, 6}"
  unfolding differing_bits_def
  by (simp only: set_filter bit_or_iff bit_0x78) auto

lemma differing_and_0x87: "set (differing_bits c (c AND 0x87)) \<subseteq> {3, 4, 5, 6}"
proof -
  have "(0x87 :: byte) = NOT 0x78" by simp
  then show ?thesis
    unfolding differing_bits_def
    by (simp only: set_filter bit_and_iff bit_not_iff bit_0x78) auto
qed

lemma set_temp_res_bank:
  "set_temp_res (sensor dev) r w =
     (Inr (), \<lparr>bus = (bus w)(MEAS_CFG :=
                  (if r = ELEVEN_BIT then bus w MEAS_CFG AND 0x7F OR 0x40
                   else if r = NINE_BIT then bus w MEAS_CFG AND 0xBF OR 0x80
                   else bus w MEAS_CFG AND 0x3F)),
               trace = trace w @ [Read dev MEAS_CFG 1, Write dev MEAS_CFG
                 [if r = ELEVEN_BIT then bus w MEAS_CFG AND 0x7F OR 0x40
                  else if r = NINE_BIT then bus w MEAS_CFG AND 0xBF OR 0x80
                  else bus w MEAS_CFG AND 0x3F]]\<rparr>)"
  by (simp add: set_temp_res_def Let_def bank_rmw of_int_and_eq of_int_or_eq setting_defs)

lemma set_humid_res_bank:
  "set_humid_res (sensor dev) r w =
     (Inr (), \<lparr>bus = (bus w)(MEAS_CFG :=
                  (if r = ELEVEN_BIT then bus w MEAS_CFG AND 0xDF OR 0x10
                   else if r = NINE_BIT then bus w MEAS_CFG AND 0xEF OR 0x20
                   else bus w MEAS_CFG AND 0xCF)),
               trace = trace w @ [Read dev MEAS_CFG 1, Write dev MEAS_CFG
                 [if r = ELEVEN_BIT then bus w MEAS_CFG AND 0xDF OR 0x10
                  else if r = NINE_BIT then bus w MEAS_CFG AND 0xEF OR 0x20
                  else bus w MEAS_CFG AND 0xCF]]\<rparr>)"
  by (simp add: set_humid_res_def Let_def bank_rmw of_int_and_eq of_int_or_eq setting_defs)

lemma temp_res_field:
  fixes c :: byte
  shows "(if r = ELEVEN_BIT then c AND 0x7F OR 0x40
          else if r = NINE_BIT then c AND 0xBF OR 0x80 else c AND 0x3F) AND 0x3F = c AND 0x3F"
  by (simp add: bit.conj_disj_distrib2 and.assoc)

lemma humid_res_field:
  fixes c :: byte
  shows "(if r = ELEVEN_BIT then c AND 0xDF OR 0x10
          else if r = NINE_BIT then c AND 0xEF OR 0x20 else c AND 0xCF) AND 0xCF = c AND 0xCF"
  by (simp add: bit.conj_disj_distrib2 and.assoc)

lemma byte_eqI:
  fixes a b :: byte
  assumes "bit a 0 = bit b 0" "bit a 1 = bit b 1" "bit a 2 = bit b 2" "bit a 3 = bit b 3"
    "bit a 4 = bit b 4" "bit a 5 = bit b 5" "bit a 6 = bit b 6" "bit a 7 = bit b 7"
  shows "a = b"
proof (rule bit_word_eqI)
  fix n assume "n < LENGTH(8)"
  then have "n \<in> {0, 1, 2, 3, 4, 5, 6, 7}" by auto
  then show "bit a n = bit b n" using assms by (elim insertE) simp_all
qed

lemma nine_then_eleven:
  fixes c :: byte
  shows "(c AND 0xBF OR 0x80) AND 0xDF OR 0x10 = c AND 0x0F OR 0x90"
  by (rule byte_eqI) (simp_all add: bit_and_iff bit_or_iff)

lemma low3:
  fixes c :: byte
  shows "(c AND 0x0F OR 0x90) AND 0x07 = c AND 0x07"
  by (rule byte_eqI) (simp_all add: bit_and_iff bit_or_iff)

text \<open>
  C2. For every content of the measurement-configuration register, \<open>set_temp_res\<close> changes
  at most bits 7:6 and \<open>set_humid_res\<close> at most bits 5:4, whatever the argument. After
  \<open>set_temp_res(NINE_BIT)\<close> and then \<open>set_humid_res(ELEVEN_BIT)\<close> the register holds
  its old low four bits under the pattern 0x90, so the measurement-mode bits 2:1 and the
  trigger bit 0 are as they were.
\<close>

theorem resolution_setters_isolated:
  "fst (set_temp_res (sensor dev) r w) = Inr ()
   \<and> bus (snd (set_temp_res (sensor dev) r w)) MEAS_CFG AND 0x3F = bus w MEAS_CFG AND 0x3F
   \<and> fst (set_humid_res (sensor dev) r w) = Inr ()
   \<and> bus (snd (set_humid_res (sensor dev) r w)) MEAS_CFG AND 0xCF = bus w MEAS_CFG AND 0xCF
   \<and> bnd (set_temp_res (sensor dev) NINE_BIT) (\<lambda>_. set_humid_res (sensor dev) ELEVEN_BIT) w =
       (Inr (),
        \<lparr>bus = (bus w)(MEAS_CFG := bus w MEAS_CFG AND 0x0F OR 0x90),
         trace = trace w @
           [Read dev MEAS_CFG 1, Write dev MEAS_CFG [bus w MEAS_CFG AND 0xBF OR 0x80],
            Read dev MEAS_CFG 1, Write dev MEAS_CFG [bus w MEAS_CFG AND 0x0F OR 0x90]]\<rparr>)
   \<and> (bus w MEAS_CFG AND 0x0F OR 0x90) AND 0x07 = bus w MEAS_CFG AND 0x07"
proof -
  have seq: "bnd (set_temp_res (sensor dev) NINE_BIT) (\<lambda>_. set_humid_res (sensor dev) ELEVEN_BIT) w =
       (Inr (),
        \<lparr>bus = (bus w)(MEAS_CFG := bus w MEAS_CFG AND 0x0F OR 0x90),
         trace = trace w @
           [Read dev MEAS_CFG 1, Write dev MEAS_CFG [bus w MEAS_CFG AND 0xBF OR 0x80],
            Read dev MEAS_CFG 1, Write dev MEAS_CFG [bus w MEAS_CFG AND 0x0F OR 0x90]]\<rparr>)"
    by (simp add: bnd_def set_temp_res_bank set_humid_res_bank setting_defs nine_then_eleven)
  show ?thesis
    by (simp only: seq set_temp_res_bank set_humid_res_bank temp_res_field humid_res_field low3
        fst_conv snd_conv world.simps fun_upd_same simp_thms)
qed

lemma enable_threshold_interrupt_bank:
  "enable_threshold_interrupt (sensor dev) w =
     (Inr (), \<lparr>bus = (bus w)(INTERRUPT_CONFIG := bus w INTERRUPT_CONFIG OR 0x78),
               trace = trace w @ [Read dev INTERRUPT_CONFIG 1,
                                  Write dev INTERRUPT_CONFIG [bus w INTERRUPT_CONFIG OR 0x78]]\<rparr>)"
  by (simp add: enable_threshold_interrupt_def bank_rmw of_int_or_eq)

lemma disable_threshold_interrupt_bank:
  "disable_threshold_interrupt (sensor dev) w =
     (Inr (), \<lparr>bus = (bus w)(INTERRUPT_CONFIG := bus w INTERRUPT_CONFIG AND 0x87),
               trace = trace w @ [Read dev INTERRUPT_CONFIG 1,
                                  Write dev INTERRUPT_CONFIG [bus w INTERRUPT_CONFIG AND 0x87]]\<rparr>)"
  by (simp add: disable_threshold_interrupt_def bank_rmw of_int_and_eq)

text \<open>
  The claim C3, that the threshold-interrupt switches change a single bit, fails: from 0x00
  \<open>enable_threshold_interrupt\<close> writes 0x78, which differs from the byte read in the four
  positions 3 to 6, and from 0xFF \<open>disable_threshold_interrupt\<close> writes 0x87.
\<close>

theorem threshold_interrupt_counterexample:
  "enable_threshold_interrupt (sensor 0x40) (start (\<lambda>_. 0)) =
     (Inr (), \<lparr>bus = (\<lambda>_. 0)(0x07 := 0x78),
               trace = [Read 0x40 0x07 1, Write 0x40 0x07 [0x78]]\<rparr>)
   \<and> differing_bits 0x00 0x78 = [3, 4, 5, 6]
   \<and> length (differing_bits 0x00 0x78) \<noteq> 1
   \<and> disable_threshold_interrupt (sensor 0x40) (start (\<lambda>_. 0xFF)) =
     (Inr (), \<lparr>bus = (\<lambda>_. 0xFF)(0x07 := 0x87),
               trace = [Read 0x40 0x07 1, Write 0x40 0x07 [0x87]]\<rparr>)
   \<and> differing_bits 0xFF 0x87 = [3, 4, 5, 6]"
  by (simp add: enable_threshold_interrupt_bank disable_threshold_interrupt_bank start_def
      INTERRUPT_CONFIG_def differing_bits_def upt_rec)

text \<open>
  C3, amended. \<open>enable_threshold_interrupt\<close> and \<open>disable_threshold_interrupt\<close> set and
  clear the fixed four-bit field 0x78 of the interrupt-configuration register (bits 3 to 6,
  one enable bit per threshold): for every content of the register the byte written is the
  byte read with the field all ones, or all zeros, and it differs from the byte read in no
  position outside 3 to 6.
\<close>

theorem threshold_interrupt_field:
  "enable_threshold_interrupt (sensor dev) w =
     (Inr (), \<lparr>bus = (bus w)(INTERRUPT_CONFIG := bus w INTERRUPT_CONFIG OR 0x78),
               trace = trace w @ [Read dev INTERRUPT_CONFIG 1,
                                  Write dev INTERRUPT_CONFIG [bus w INTERRUPT_CONFIG OR 0x78]]\<rparr>)
   \<and> set (differing_bits (bus w INTERRUPT_CONFIG) (bus w INTERRUPT_CONFIG OR 0x78)) \<subseteq> {3, 4, 5, 6}
   \<and> (bus w INTERRUPT_CONFIG OR 0x78) AND 0x78 = 0x78
   \<and> disable_threshold_interrupt (sensor dev) w =
     (Inr (), \<lparr>bus = (bus w)(INTERRUPT_CONFIG := bus w INTERRUPT_CONFIG AND 0x87),
               trace = trace w @ [Read dev INTERRUPT_CONFIG 1,
                                  Write dev INTERRUPT_CONFIG [bus w INTERRUPT_CONFIG AND 0x87]]\<rparr>)
   \<and> set (differing_bits (bus w INTERRUPT_CONFIG) (bus w INTERRUPT_CONFIG AND 0x87)) \<subseteq> {3, 4, 5, 6}
   \<and> (bus w INTERRUPT_CONFIG AND 0x87) AND 0x78 = 0x00"
proof -
  have a: "(c OR 0x78) AND 0x78 = 0x78" for c :: byte
    by (rule byte_eqI) (simp_all add: bit_and_iff bit_or_iff)
  have b: "(c AND 0x87) AND 0x78 = 0x00" for c :: byte
    by (rule byte_eqI) (simp_all add: bit_and_iff bit_or_iff)
  show ?thesis
    by (simp only: enable_threshold_interrupt_bank disable_threshold_interrupt_bank
        differing_or_0x78 differing_and_0x87 a b simp_thms)
qed

lemma fallback_eq:
  "r \<notin> {FOURTEEN_BIT, ELEVEN_BIT, NINE_BIT} \<Longrightarrow> set_temp_res self r = set_temp_res self FOURTEEN_BIT"
  "r \<notin> {FOURTEEN_BIT, ELEVEN_BIT, NINE_BIT} \<Longrightarrow> set_humid_res self r = set_humid_res self FOURTEEN_BIT"
  "m \<notin> {TEMP_AND_HUMID, TEMP_ONLY, HUMID_ONLY} \<Longrightarrow>
     set_measurement_mode self m = set_measurement_mode self TEMP_AND_HUMID"
  "rate \<notin> {MANUAL, TWO_MINS, ONE_MINS, TEN_SECONDS, FIVE_SECONDS, ONE_HZ, TWO_HZ, FIVE_HZ} \<Longrightarrow>
     set_rate self rate = set_rate self MANUAL"
  "p \<notin> {ACTIVE_LOW, ACTIVE_HIGH} \<Longrightarrow> set_interrupt_polarity self p = set_interrupt_polarity self ACTIVE_LOW"
  "im \<notin> {LEVEL_MODE, COMPARATOR_MODE} \<Longrightarrow> set_interrupt_mode self im = set_interrupt_mode self LEVEL_MODE"
  by (simp_all add: set_temp_res_def set_humid_res_def set_measurement_mode_def set_rate_def
      set_interrupt_polarity_def set_interrupt_mode_def)

lemma fallback_bank:
  "set_temp_res (sensor dev) FOURTEEN_BIT w =
     (Inr (), \<lparr>bus = (bus w)(MEAS_CFG := bus w MEAS_CFG AND 0x3F),
               trace = trace w @ [Read dev MEAS_CFG 1, Write dev MEAS_CFG [bus w MEAS_CFG AND 0x3F]]\<rparr>)"
  "set_humid_res (sensor dev) FOURTEEN_BIT w =
     (Inr (), \<lparr>bus = (bus w)(MEAS_CFG := bus w MEAS_CFG AND 0xCF),
               trace = trace w @ [Read dev MEAS_CFG 1, Write dev MEAS_CFG [bus w MEAS_CFG AND 0xCF]]\<rparr>)"
  "set_measurement_mode (sensor dev) TEMP_AND_HUMID w =
     (Inr (), \<lparr>bus = (bus w)(MEAS_CFG := bus w MEAS_CFG AND 0xF9),
               trace = trace w @ [Read dev MEAS_CFG 1, Write dev MEAS_CFG [bus w MEAS_CFG AND 0xF9]]\<rparr>)"
  "set_rate (sensor dev) MANUAL w =
     (Inr (), \<lparr>bus = (bus w)(CONFIG := bus w CONFIG AND 0x8F),
               trace = trace w @ [Read dev CONFIG 1, Write dev CONFIG [bus w CONFIG AND 0x8F]]\<rparr>)"
  "set_interrupt_polarity (sensor dev) ACTIVE_LOW w =
     (Inr (), \<lparr>bus = (bus w)(CONFIG := bus w CONFIG AND 0xFD),
               trace = trace w @ [Read dev CONFIG 1, Write dev CONFIG [bus w CONFIG AND 0xFD]]\<rparr>)"
  "set_interrupt_mode (sensor dev) LEVEL_MODE w =
     (Inr (), \<lparr>bus = (bus w)(CONFIG := bus w CONFIG AND 0xFE),
               trace = trace w @ [Read dev CONFIG 1, Write dev CONFIG [bus w CONFIG AND 0xFE]]\<rparr>)"
  by (simp_all add: set_temp_res_def set_humid_res_def set_measurement_mode_def set_rate_def
      set_interrupt_polarity_def set_interrupt_mode_def Let_def bank_rmw of_int_and_eq)

text \<open>
  C5. An argument outside the enumeration takes the \<open>else\<close> branch of its setter, which
  computes what the first branch computes. So for any transport the call is the call with
  the fallback value (14 bit, 14 bit, temperature and humidity, manual, active low, level
  mode), and on the register bank it returns normally, having cleared the setter's field
  and nothing else.
\<close>

theorem unrecognized_setting_falls_back:
  assumes "tr \<notin> {FOURTEEN_BIT, ELEVEN_BIT, NINE_BIT}"
      and "hr \<notin> {FOURTEEN_BIT, ELEVEN_BIT, NINE_BIT}"
      and "mm \<notin> {TEMP_AND_HUMID, TEMP_ONLY, HUMID_ONLY}"
      and "rate \<notin> {MANUAL, TWO_MINS, ONE_MINS, TEN_SECONDS, FIVE_SECONDS, ONE_HZ, TWO_HZ, FIVE_HZ}"
      and "pol \<notin> {ACTIVE_LOW, ACTIVE_HIGH}"
      and "im \<notin> {LEVEL_MODE, COMPARATOR_MODE}"
  shows "set_temp_res self tr = set_temp_res self FOURTEEN_BIT
   \<and> set_temp_res (sensor dev) tr w =
     (Inr (), \<lparr>bus = (bus w)(MEAS_CFG := bus w MEAS_CFG AND 0x3F),
               trace = trace w @ [Read dev MEAS_CFG 1, Write dev MEAS_CFG [bus w MEAS_CFG AND 0x3F]]\<rparr>)
   \<and> set_humid_res self hr = set_humid_res self FOURTEEN_BIT
   \<and> set_humid_res (sensor dev) hr w =
     (Inr (), \<lparr>bus = (bus w)(MEAS_CFG := bus w MEAS_CFG AND 0xCF),
               trace = trace w @ [Read dev MEAS_CFG 1, Write dev MEAS_CFG [bus w MEAS_CFG AND 0xCF]]\<rparr>)
   \<and> set_measurement_mode self mm = set_measurement_mode self TEMP_AND_HUMID
   \<and> set_measurement_mode (sensor dev) mm w =
     (Inr (), \<lparr>bus = (bus w)(MEAS_CFG := bus w MEAS_CFG AND 0xF9),
               trace = trace w @ [Read dev MEAS_CFG 1, Write dev MEAS_CFG [bus w MEAS_CFG AND 0xF9]]\<rparr>)
   \<and> set_rate self rate = set_rate self MANUAL
   \<and> set_rate (sensor dev) rate w =
     (Inr (), \<lparr>bus = (bus w)(CONFIG := bus w CONFIG AND 0x8F),
               trace = trace w @ [Read dev CONFIG 1, Write dev CONFIG [bus w CONFIG AND 0x8F]]\<rparr>)
   \<and> set_interrupt_polarity self pol = set_interrupt_polarity self ACTIVE_LOW
   \<and> set_interrupt_polarity (sensor dev) pol w =
     (Inr (), \<lparr>bus = (bus w)(CONFIG := bus w CONFIG AND 0xFD),
               trace = trace w @ [Read dev CONFIG 1, Write dev CONFIG [bus w CONFIG AND 0xFD]]\<rparr>)
   \<and> set_interrupt_mode self im = set_interrupt_mode self LEVEL_MODE
   \<and> set_interrupt_mode (sensor dev) im w =
     (Inr (), \<lparr>bus = (bus w)(CONFIG := bus w CONFIG AND 0xFE),
               trace = trace w @ [Read dev CONFIG 1, Write dev CONFIG [bus w CONFIG AND 0xFE]]\<rparr>)"
  by (simp only: fallback_eq(1) [OF assms(1)] fallback_eq(2) [OF assms(2)] fallback_eq(3) [OF assms(3)]
      fallback_eq(4) [OF assms(4)] fallback_eq(5) [OF assms(5)] fallback_eq(6) [OF assms(6)]
      fallback_bank simp_thms)

theorem unrecognized_setting_falls_back_witness:
  "(7::int) \<notin> {FOURTEEN_BIT, ELEVEN_BIT, NINE_BIT}
   \<and> (-1::int) \<notin> {FOURTEEN_BIT, ELEVEN_BIT, NINE_BIT}
   \<and> (3::int) \<notin> {TEMP_AND_HUMID, TEMP_ONLY, HUMID_ONLY}
   \<and> (8::int) \<notin> {MANUAL, TWO_MINS, ONE_MINS, TEN_SECONDS, FIVE_SECONDS, ONE_HZ, TWO_HZ, FIVE_HZ}
   \<and> (2::int) \<notin> {ACTIVE_LOW, ACTIVE_HIGH}
   \<and> (255::int) \<notin> {LEVEL_MODE, COMPARATOR_MODE}
   \<and> bus (snd (set_temp_res (sensor 0x40) 7 (start (\<lambda>_. 0xFF)))) MEAS_CFG = 0x3F
   \<and> bus (snd (set_humid_res (sensor 0x40) (-1) (start (\<lambda>_. 0xFF)))) MEAS_CFG = 0xCF
   \<and> bus (snd (set_measurement_mode (sensor 0x40) 3 (start (\<lambda>_. 0xFF)))) MEAS_CFG = 0xF9
   \<and> bus (snd (set_rate (sensor 0x40) 8 (start (\<lambda>_. 0xFF)))) CONFIG = 0x8F
   \<and> bus (snd (set_interrupt_polarity (sensor 0x40) 2 (start (\<lambda>_. 0xFF)))) CONFIG = 0xFD
   \<and> bus (snd (set_interrupt_mode (sensor 0x40) 255 (start (\<lambda>_. 0xFF)))) CONFIG = 0xFE"
proof -
  have h: "(7::int) \<notin> {FOURTEEN_BIT, ELEVEN_BIT, NINE_BIT}"
    "(-1::int) \<notin> {FOURTEEN_BIT, ELEVEN_BIT, NINE_BIT}"
    "(3::int) \<notin> {TEMP_AND_HUMID, TEMP_ONLY, HUMID_ONLY}"
    "(8::int) \<notin> {MANUAL, TWO_MINS, ONE_MINS, TEN_SECONDS, FIVE_SECONDS, ONE_HZ, TWO_HZ, FIVE_HZ}"
    "(2::int) \<notin> {ACTIVE_LOW, ACTIVE_HIGH}"
    "(255::int) \<notin> {LEVEL_MODE, COMPARATOR_MODE}"
    by (simp_all add: setting_defs)
  show ?thesis
    using h unrecognized_setting_falls_back [OF h, of "flaky_sensor 0x40" "0x40" "start (\<lambda>_. 0xFF)"]
    by (simp add: start_def)
qed

section \<open>Bus traffic of the measurement reads\<close>

lemma read_pair_trace:
  "trace (snd (bnd (read_reg self lo) (\<lambda>low. bnd (read_reg self hi) (\<lambda>high. ret (f low high))) w)) =
     trace w @ (case fst (readfrom_mem (i2c self) (addr self) lo 1 (bus w)) of
                  Inl e \<Rightarrow> [Read (addr self) lo 1]
                | Inr bs \<Rightarrow> [Read (addr self) lo 1, Read (addr self) hi 1])"
  by (simp add: bnd_def read_reg_def ret_def split: prod.splits sum.splits)

lemma read_pair_fails:
  "isl (fst (bnd (read_reg self lo) (\<lambda>low. bnd (read_reg self hi) (\<lambda>high. ret (f low high))) w)) =
     (isl (fst (readfrom_mem (i2c self) (addr self) lo 1 (bus w)))
      \<or> isl (fst (readfrom_mem (i2c self) (addr self) hi 1
                 (snd (readfrom_mem (i2c self) (addr self) lo 1 (bus w))))))"
  by (simp add: bnd_def read_reg_def ret_def split: prod.splits sum.splits)

text \<open>
  The claim C4, that a measurement read is one bus transaction which succeeds or fails as
  a whole, fails: on a bus that completes one transaction and then fails, \<open>read_temp\<close>
  reads the low byte, fails on the high byte and raises; on the register bank its trace
  has two transactions. \<open>read_humidity\<close> does the same.
\<close>

theorem measurement_read_counterexample:
  "read_temp (flaky_sensor 0x40) (start (1, (\<lambda>_. 0)(0 := 0x34, 1 := 0x12))) =
     (Inl OSError, \<lparr>bus = (0, (\<lambda>_. 0)(0 := 0x34, 1 := 0x12)),
                    trace = [Read 0x40 0x00 1, Read 0x40 0x01 1]\<rparr>)
   \<and> fst (read_reg (flaky_sensor 0x40) TEMP_LOW (start (1, (\<lambda>_. 0)(0 := 0x34, 1 := 0x12)))) = Inr 0x34
   \<and> length (transactions (trace (snd (read_temp (sensor 0x40) (start ((\<lambda>_. 0)(0 := 0x34, 1 := 0x12))))))) = 2
   \<and> read_humidity (flaky_sensor 0x40) (start (1, (\<lambda>_. 0)(2 := 0x34, 3 := 0x12))) =
     (Inl OSError, \<lparr>bus = (0, (\<lambda>_. 0)(2 := 0x34, 3 := 0x12)),
                    trace = [Read 0x40 0x02 1, Read 0x40 0x03 1]\<rparr>)"
  by (simp add: read_temp_def read_humidity_def bnd_def read_reg_def ret_def flaky_sensor_def
      sensor_def flaky_def bank_def start_def reg_defs transactions_def)

text \<open>
  C4, amended. \<open>read_temp\<close> and \<open>read_humidity\<close> issue two one-byte read transactions, the
  low register first. When the first fails the second is not issued; otherwise both are.
  The method raises exactly when one of the two fails, so it can fail between the bytes.
\<close>

theorem measurement_read_two_transactions:
  "trace (snd (read_temp self w)) =
     trace w @ (case fst (readfrom_mem (i2c self) (addr self) TEMP_LOW 1 (bus w)) of
                  Inl e \<Rightarrow> [Read (addr self) TEMP_LOW 1]
                | Inr bs \<Rightarrow> [Read (addr self) TEMP_LOW 1, Read (addr self) TEMP_HIGH 1])
   \<and> isl (fst (read_temp self w)) =
       (isl (fst (readfrom_mem (i2c self) (addr self) TEMP_LOW 1 (bus w)))
        \<or> isl (fst (readfrom_mem (i2c self) (addr self) TEMP_HIGH 1
                   (snd (readfrom_mem (i2c self) (addr self) TEMP_LOW 1 (bus w))))))
   \<and> trace (snd (read_humidity self w)) =
     trace w @ (case fst (readfrom_mem (i2c self) (addr self) HUMID_LOW 1 (bus w)) of
                  Inl e \<Rightarrow> [Read (addr self) HUMID_LOW 1]
                | Inr bs \<Rightarrow> [Read (addr self) HUMID_LOW 1, Read (addr self) HUMID_HIGH 1])
   \<and> isl (fst (read_humidity self w)) =
       (isl (fst (readfrom_mem (i2c self) (addr self) HUMID_LOW 1 (bus w)))
        \<or> isl (fst (readfrom_mem (i2c self) (addr self) HUMID_HIGH 1
                   (snd (readfrom_mem (i2c self) (addr self) HUMID_LOW 1 (bus w))))))"
  by (simp only: read_temp_def read_humidity_def Let_def read_pair_trace read_pair_fails simp_thms)

section \<open>Float arithmetic\<close>

text \<open>
  The exponent is determined by the two powers of two around the number, and rounding by
  the exponent and the position between the two neighbouring integers.
\<close>

lemma pow2_pos: "0 < pow2 k" by (simp add: pow2_def)

lemma pow2_nat: "pow2 (int n) = 2 ^ n" by (simp add: pow2_def)

lemma pow2_Suc: "pow2 (k + 1) = 2 * pow2 k"
proof (cases "0 \<le> k")
  case True
  then show ?thesis by (simp add: pow2_def nat_add_distrib)
next
  case False
  then have "k = - 1 \<or> k < - 1" by arith
  then show ?thesis
  proof
    assume "k = - 1" then show ?thesis by (simp add: pow2_def)
  next
    assume k: "k < - 1"
    then have "nat (- k) = Suc (nat (- (k + 1)))" by arith
    with k show ?thesis by (simp add: pow2_def)
  qed
qed

lemma fexp_eqI:
  assumes "pow2 k \<le> \<bar>x\<bar>" and "\<bar>x\<bar> < pow2 (k + 1)"
  shows "fexp x = k"
proof (cases "1 \<le> \<bar>x\<bar>")
  case True
  have k0: "0 \<le> k"
  proof (rule ccontr)
    assume "\<not> 0 \<le> k"
    then have "k + 1 \<le> 0" by arith
    then have "pow2 (k + 1) \<le> 1" by (auto simp: pow2_def field_simps)
    with assms(2) True show False by arith
  qed
  let ?n = "\<lfloor>\<bar>x\<bar>\<rfloor>"
  have lo: "2 ^ nat k \<le> ?n"
  proof -
    have "real_of_int (2 ^ nat k) \<le> \<bar>x\<bar>" using assms(1) k0 by (simp add: pow2_def)
    then show ?thesis by (simp only: le_floor_iff)
  qed
  have hi: "?n < 2 ^ nat (k + 1)"
  proof -
    have "\<bar>x\<bar> < real_of_int (2 ^ nat (k + 1))" using assms(2) k0 by (simp add: pow2_def)
    then show ?thesis by (simp only: floor_less_iff)
  qed
  have "bitlen ?n \<le> k + 1" using hi k0 by (simp add: bitlen_le_iff_power)
  moreover have "k + 1 \<le> bitlen ?n" using lo k0 by (simp add: bitlen_ge_iff_power nat_add_distrib)
  ultimately have "bitlen ?n = k + 1" by arith
  with True show ?thesis by (simp add: fexp_def)
next
  case False
  then have x1: "\<bar>x\<bar> < 1" by arith
  have xpos: "0 < \<bar>x\<bar>" using assms(1) pow2_pos [of k] by arith
  have kneg: "k < 0"
  proof (rule ccontr)
    assume "\<not> k < 0"
    then have "1 \<le> pow2 k" by (simp add: pow2_def)
    with assms(1) x1 show False by arith
  qed
  define j where "j = nat (- k)"
  have j: "0 < j" "k = - int j" using kneg by (simp_all add: j_def)
  let ?y = "1 / \<bar>x\<bar>"
  have pk: "pow2 k = 1 / 2 ^ j" using kneg by (simp add: pow2_def j_def)
  have pk1: "pow2 (k + 1) = 1 / 2 ^ (j - 1)"
    using pow2_Suc [of k] pk j by (cases j) simp_all
  have yle: "?y \<le> 2 ^ j" using assms(1) xpos pk by (simp add: field_simps)
  have ygt: "2 ^ (j - 1) < ?y"
  proof -
    have "\<bar>x\<bar> < 1 / 2 ^ (j - 1)" using assms(2) pk1 by simp
    then have "\<bar>x\<bar> * 2 ^ (j - 1) < 1" by (simp add: field_simps)
    then show ?thesis using xpos by (simp add: field_simps)
  qed
  let ?m = "\<lceil>?y\<rceil>"
  have mle: "?m \<le> 2 ^ j"
  proof -
    have "?y \<le> real_of_int (2 ^ j)" using yle by simp
    then show ?thesis by (simp only: ceiling_le_iff)
  qed
  have mgt: "2 ^ (j - 1) < ?m"
  proof -
    have "real_of_int (2 ^ (j - 1)) < ?y" using ygt by simp
    then show ?thesis by (simp only: less_ceiling_iff)
  qed
  have "bitlen (?m - 1) \<le> int j" using mle by (simp add: bitlen_le_iff_power)
  moreover have "int j \<le> bitlen (?m - 1)" using mgt j by (simp add: bitlen_ge_iff_power)
  ultimately have "bitlen (?m - 1) = int j" by arith
  with False j show ?thesis by (simp add: fexp_def)
qed


lemma round_even_int: "round_even (real_of_int n) = n"
  by (simp add: round_even_def)

lemma round_even_down:
  "real_of_int f \<le> q \<Longrightarrow> q < real_of_int f + 1 / 2 \<Longrightarrow> round_even q = f"
proof -
  assume a: "real_of_int f \<le> q" "q < real_of_int f + 1 / 2"
  then have "\<lfloor>q\<rfloor> = f" by (simp add: floor_eq_iff)
  with a show ?thesis by (simp add: round_even_def)
qed

lemma round_even_up:
  "real_of_int f + 1 / 2 < q \<Longrightarrow> q < real_of_int f + 1 \<Longrightarrow> round_even q = f + 1"
proof -
  assume a: "real_of_int f + 1 / 2 < q" "q < real_of_int f + 1"
  then have "\<lfloor>q\<rfloor> = f" by (simp add: floor_eq_iff)
  with a show ?thesis by (simp add: round_even_def)
qed

lemma round_even_tie:
  "q = real_of_int f + 1 / 2 \<Longrightarrow> round_even q = (if even f then f else f + 1)"
proof -
  assume a: "q = real_of_int f + 1 / 2"
  then have "\<lfloor>q\<rfloor> = f" by (simp add: floor_eq_iff)
  with a show ?thesis by (simp add: round_even_def)
qed

lemma fround_eq:
  assumes "pow2 k \<le> \<bar>x\<bar>" and "\<bar>x\<bar> < pow2 (k + 1)"
    and "round_even (x / pow2 (max k (emin fmt) - int (precision fmt) + 1)) = r"
  shows "fround fmt x = real_of_int r * pow2 (max k (emin fmt) - int (precision fmt) + 1)"
proof -
  have "x \<noteq> 0" using assms(1) pow2_pos [of k] by auto
  moreover have "fexp x = k" using assms(1,2) by (rule fexp_eqI)
  ultimately show ?thesis using assms(3) by (simp add: fround_def)
qed

lemma largest_big: "2 ^ 100 \<le> largest fmt"
  by (cases fmt) (simp_all add: largest_def pow2_def)

lemma finish_eq:
  assumes "fround fmt x = r" and "\<bar>r\<bar> \<le> 2 ^ 100"
  shows "finish fmt x = Finite r"
  using assms largest_big [of fmt] by (auto simp: finish_def)

lemma round_even_numeral: "round_even (numeral n) = numeral n"
  using round_even_int [of "numeral n"] by simp

lemma fexp_values:
  "fexp 65 = 6" "fexp 16640 = 14" "fexp 165 = 7" "fexp 42240 = 15" "fexp 256 = 8"
  "fexp 25600 = 14" "fexp (16640 / 165) = 6"
  by (rule fexp_eqI; simp add: pow2_def)+

lemma fround_exact:
  "fround fmt 0 = 0" "fround fmt 65 = 65" "fround fmt 16640 = 16640" "fround fmt 165 = 165"
  "fround fmt 42240 = 42240" "fround fmt 256 = 256" "fround fmt 25600 = 25600"
  by (cases fmt; simp add: fround_def fexp_values pow2_def round_even_numeral)+

lemma fround_quotient:
  "fround Binary32 (16640 / 165) = 13218413 / 131072"
  "fround Binary64 (16640 / 165) = 3548290615504027 / 35184372088832"
proof -
  have "round_even (16640 / 165 * 131072) = 13218412 + 1"
    by (rule round_even_up) simp_all
  then have r: "round_even (16640 / 165 / pow2 (max 6 (emin Binary32) - int (precision Binary32) + 1))
                  = 13218413"
    by (simp add: pow2_def)
  have "fround Binary32 (16640 / 165) =
          real_of_int 13218413 * pow2 (max 6 (emin Binary32) - int (precision Binary32) + 1)"
    by (rule fround_eq [OF _ _ r]) (simp_all add: pow2_def)
  then show "fround Binary32 (16640 / 165) = 13218413 / 131072"
    by (simp add: pow2_def)
  have "round_even (16640 / 165 * 70368744177664) = 7096581231008054"
    by (rule round_even_down) simp_all
  then have r: "round_even (16640 / 165 / pow2 (max 6 (emin Binary64) - int (precision Binary64) + 1))
                  = 7096581231008054"
    by (simp add: pow2_def)
  have "fround Binary64 (16640 / 165) =
          real_of_int 7096581231008054 * pow2 (max 6 (emin Binary64) - int (precision Binary64) + 1)"
    by (rule fround_eq [OF _ _ r]) (simp_all add: pow2_def)
  then show "fround Binary64 (16640 / 165) = 3548290615504027 / 35184372088832"
    by (simp add: pow2_def)
qed

lemma finish_exact:
  "finish fmt 0 = Finite 0" "finish fmt 65 = Finite 65" "finish fmt 16640 = Finite 16640"
  "finish fmt 165 = Finite 165" "finish fmt 42240 = Finite 42240" "finish fmt 256 = Finite 256"
  "finish fmt 25600 = Finite 25600"
  by (rule finish_eq, rule fround_exact, simp)+

lemma finish_quotient:
  "finish Binary32 (16640 / 165) = Finite (13218413 / 131072)"
  "finish Binary64 (16640 / 165) = Finite (3548290615504027 / 35184372088832)"
  by (rule finish_eq, rule fround_quotient, simp)+

lemma finish_quotient_reduced:
  "finish Binary32 (3328 / 33) = Finite (13218413 / 131072)"
  "finish Binary64 (3328 / 33) = Finite (3548290615504027 / 35184372088832)"
  using finish_quotient by simp_all

section \<open>Thresholds\<close>

text \<open>
  A threshold setter takes a float. Its two comparisons are a clamp for every argument
  but NaN, which passes both unchanged; the byte written is computed from the clamped
  value, in the arithmetic of the runtime.
\<close>

lemma result_bnd: "bnd (result (Inr x)) k = k x"
  by (rule ext) (simp add: bnd_def result_def)

lemma set_temp_at_125:
  "set_high_temp fmt self (Finite 125) = write_reg self TEMP_THR_H 0"
  "set_low_temp fmt self (Finite 125) = write_reg self TEMP_THR_L 0"
  by (simp_all add: set_high_temp_def set_low_temp_def finish_exact result_bnd)

lemma set_temp_at_minus_40:
  "set_high_temp fmt self (Finite (- 40)) = write_reg self TEMP_THR_H 0"
  "set_low_temp fmt self (Finite (- 40)) = write_reg self TEMP_THR_L 0"
  by (simp_all add: set_high_temp_def set_low_temp_def finish_exact result_bnd)

lemma set_humidity_at_100:
  "set_high_humidity fmt self (Finite 100) = write_reg self HUMID_THR_H 0"
  "set_low_humidity fmt self (Finite 100) = write_reg self HUMID_THR_L 0"
  by (simp_all add: set_high_humidity_def set_low_humidity_def finish_exact result_bnd)

lemma set_humidity_at_0:
  "set_high_humidity fmt self (Finite 0) = write_reg self HUMID_THR_H 0"
  "set_low_humidity fmt self (Finite 0) = write_reg self HUMID_THR_L 0"
  by (simp_all add: set_high_humidity_def set_low_humidity_def finish_exact result_bnd)

lemma set_temp_clamps:
  "set_low_temp fmt self (Finite x) = set_low_temp fmt self (Finite (max (- 40) (min 125 x)))"
  "set_high_temp fmt self (Finite x) = set_high_temp fmt self (Finite (max (- 40) (min 125 x)))"
  "set_low_temp fmt self PosInf = set_low_temp fmt self (Finite 125)"
  "set_high_temp fmt self PosInf = set_high_temp fmt self (Finite 125)"
  "set_low_temp fmt self NegInf = set_low_temp fmt self (Finite (- 40))"
  "set_high_temp fmt self NegInf = set_high_temp fmt self (Finite (- 40))"
  by (simp_all add: set_low_temp_def set_high_temp_def max_def min_def)

lemma set_humidity_clamps:
  "set_low_humidity fmt self (Finite x) = set_low_humidity fmt self (Finite (max 0 (min 100 x)))"
  "set_high_humidity fmt self (Finite x) = set_high_humidity fmt self (Finite (max 0 (min 100 x)))"
  "set_low_humidity fmt self PosInf = set_low_humidity fmt self (Finite 100)"
  "set_high_humidity fmt self PosInf = set_high_humidity fmt self (Finite 100)"
  "set_low_humidity fmt self NegInf = set_low_humidity fmt self (Finite 0)"
  "set_high_humidity fmt self NegInf = set_high_humidity fmt self (Finite 0)"
  by (simp_all add: set_low_humidity_def set_high_humidity_def max_def min_def)

lemma set_nan:
  "set_low_temp fmt self NaN w = (Inl ValueError, w)"
  "set_high_temp fmt self NaN w = (Inl ValueError, w)"
  "set_low_humidity fmt self NaN w = (Inl ValueError, w)"
  "set_high_humidity fmt self NaN w = (Inl ValueError, w)"
  by (simp_all add: set_low_temp_def set_high_temp_def set_low_humidity_def
      set_high_humidity_def bnd_def result_def)

lemma set_temp_at_25:
  "set_low_temp fmt self (Finite 25) = write_reg self TEMP_THR_L 100"
  by (cases fmt)
    (simp_all add: set_low_temp_def finish_exact finish_quotient_reduced result_bnd)

lemma set_high_temp_200: "set_high_temp fmt self (Finite 200) = set_high_temp fmt self (Finite 125)"
  using set_temp_clamps(2) [of fmt self 200] by simp

lemma set_low_humidity_minus_10:
  "set_low_humidity fmt self (Finite (- 10)) = set_low_humidity fmt self (Finite 0)"
  using set_humidity_clamps(1) [of fmt self "- 10"] by simp

text \<open>
  The claim C6, that every input is clamped into the range before the conversion, fails
  for NaN: both comparisons are false, the conversion receives NaN, \<open>int\<close> raises
  \<open>ValueError\<close> and nothing is written, while the ends of the range, -40 and 125, each
  write a byte.
\<close>

theorem threshold_clamp_counterexample:
  "set_high_temp Binary64 (sensor 0x40) NaN (start (\<lambda>_. 0xAA)) =
     (Inl ValueError, \<lparr>bus = \<lambda>_. 0xAA, trace = []\<rparr>)
   \<and> set_high_temp Binary32 (sensor 0x40) NaN (start (\<lambda>_. 0xAA)) =
     (Inl ValueError, \<lparr>bus = \<lambda>_. 0xAA, trace = []\<rparr>)
   \<and> set_low_humidity Binary64 (sensor 0x40) NaN (start (\<lambda>_. 0xAA)) =
     (Inl ValueError, \<lparr>bus = \<lambda>_. 0xAA, trace = []\<rparr>)
   \<and> \<not> fle (Finite (- 40)) NaN \<and> \<not> fle NaN (Finite 125)
   \<and> set_high_temp Binary64 (sensor 0x40) NaN (start (\<lambda>_. 0xAA)) \<noteq>
       set_high_temp Binary64 (sensor 0x40) (Finite 125) (start (\<lambda>_. 0xAA))
   \<and> set_high_temp Binary64 (sensor 0x40) NaN (start (\<lambda>_. 0xAA)) \<noteq>
       set_high_temp Binary64 (sensor 0x40) (Finite (- 40)) (start (\<lambda>_. 0xAA))"
  by (simp add: set_nan start_def fle_def set_temp_at_125 set_temp_at_minus_40 bank_write)

text \<open>
  C6, amended. \<open>set_high_temp(200.0)\<close> is the same call as \<open>set_high_temp(125.0)\<close>, and
  \<open>set_low_humidity(-10.0)\<close> the same as \<open>set_low_humidity(0.0)\<close>, on any transport and in
  either float format; on the register bank both calls of each pair write 0x00 to the same
  register. In general a temperature setter called with any float but NaN, the infinities
  included, is the same call with the argument clamped to [-40, 125], and a humidity
  setter the same call with the argument clamped to [0, 100]. With NaN every setter
  raises \<open>ValueError\<close> before any bus traffic.
\<close>

theorem threshold_setters_clamp:
  "set_high_temp fmt self (Finite 200) = set_high_temp fmt self (Finite 125)
   \<and> set_low_humidity fmt self (Finite (- 10)) = set_low_humidity fmt self (Finite 0)
   \<and> set_high_temp fmt (sensor dev) (Finite 200) w =
       (Inr (), \<lparr>bus = (bus w)(TEMP_THR_H := 0x00),
                 trace = trace w @ [Write dev TEMP_THR_H [0x00]]\<rparr>)
   \<and> set_low_humidity fmt (sensor dev) (Finite (- 10)) w =
       (Inr (), \<lparr>bus = (bus w)(HUMID_THR_L := 0x00),
                 trace = trace w @ [Write dev HUMID_THR_L [0x00]]\<rparr>)
   \<and> set_low_temp fmt self (Finite x) = set_low_temp fmt self (Finite (max (- 40) (min 125 x)))
   \<and> set_high_temp fmt self (Finite x) = set_high_temp fmt self (Finite (max (- 40) (min 125 x)))
   \<and> set_low_temp fmt self PosInf = set_low_temp fmt self (Finite 125)
   \<and> set_high_temp fmt self PosInf = set_high_temp fmt self (Finite 125)
   \<and> set_low_temp fmt self NegInf = set_low_temp fmt self (Finite (- 40))
   \<and> set_high_temp fmt self NegInf = set_high_temp fmt self (Finite (- 40))
   \<and> set_low_humidity fmt self (Finite x) = set_low_humidity fmt self (Finite (max 0 (min 100 x)))
   \<and> set_high_humidity fmt self (Finite x) = set_high_humidity fmt self (Finite (max 0 (min 100 x)))
   \<and> set_low_humidity fmt self PosInf = set_low_humidity fmt self (Finite 100)
   \<and> set_high_humidity fmt self PosInf = set_high_humidity fmt self (Finite 100)
   \<and> set_low_humidity fmt self NegInf = set_low_humidity fmt self (Finite 0)
   \<and> set_high_humidity fmt self NegInf = set_high_humidity fmt self (Finite 0)
   \<and> set_low_temp fmt self NaN w' = (Inl ValueError, w')
   \<and> set_high_temp fmt self NaN w' = (Inl ValueError, w')
   \<and> set_low_humidity fmt self NaN w' = (Inl ValueError, w')
   \<and> set_high_humidity fmt self NaN w' = (Inl ValueError, w')"
proof -
  have c: "set_high_temp fmt (sensor dev) (Finite 200) w =
       (Inr (), \<lparr>bus = (bus w)(TEMP_THR_H := 0x00),
                 trace = trace w @ [Write dev TEMP_THR_H [0x00]]\<rparr>)"
    by (simp add: set_high_temp_200 set_temp_at_125 bank_write)
  have d: "set_low_humidity fmt (sensor dev) (Finite (- 10)) w =
       (Inr (), \<lparr>bus = (bus w)(HUMID_THR_L := 0x00),
                 trace = trace w @ [Write dev HUMID_THR_L [0x00]]\<rparr>)"
    by (simp add: set_low_humidity_minus_10 set_humidity_at_0 bank_write)
  show ?thesis
    apply (intro conjI)
    apply (rule set_high_temp_200 set_low_humidity_minus_10 c d set_temp_clamps
        set_humidity_clamps set_nan)+
    done
qed

text \<open>
  C7. On the register bank \<open>set_low_temp(25.0)\<close> writes the byte 100 to register 0x0A in
  either float format: \<open>25.0 + 40.0\<close> and \<open>256.0 * 65.0\<close> are exact, and the quotient
  \<open>16640.0 / 165.0\<close> rounds to a float between 100 and 101. \<open>read_low_temp_threshold\<close>
  then returns \<open>100 * 165 / 256 - 40 = 24.453125\<close>, which is within \<open>165 / 256\<close> of 25.
\<close>

theorem low_temp_round_trip:
  "bnd (set_low_temp fmt (sensor dev) (Finite 25)) (\<lambda>_. read_low_temp_threshold (sensor dev)) w =
     (Inr (1565 / 64),
      \<lparr>bus = (bus w)(TEMP_THR_L := 100),
       trace = trace w @ [Write dev TEMP_THR_L [100], Read dev TEMP_THR_L 1]\<rparr>)
   \<and> (1565 / 64 :: real) = 100 * 165 / 256 - 40
   \<and> \<bar>1565 / 64 - 25 :: real\<bar> < 165 / 256"
  by (simp add: set_temp_at_25 read_low_temp_threshold_def bnd_def ret_def bank_read bank_write)

lemma fle_125: "fle (Finite 125) t \<Longrightarrow> t = PosInf \<or> (\<exists>x. t = Finite x \<and> 125 \<le> x)"
  by (cases t) (auto simp: fle_def)

lemma fle_100: "fle (Finite 100) t \<Longrightarrow> t = PosInf \<or> (\<exists>x. t = Finite x \<and> 100 \<le> x)"
  by (cases t) (auto simp: fle_def)

lemma set_temp_top:
  assumes "fle (Finite 125) t"
  shows "set_high_temp fmt self t = write_reg self TEMP_THR_H 0"
    and "set_low_temp fmt self t = write_reg self TEMP_THR_L 0"
proof -
  have "set_high_temp fmt self t = set_high_temp fmt self (Finite 125)
        \<and> set_low_temp fmt self t = set_low_temp fmt self (Finite 125)"
    using fle_125 [OF assms]
  proof
    assume "t = PosInf"
    then show ?thesis by (simp only: set_temp_clamps(3,4) simp_thms)
  next
    assume "\<exists>x. t = Finite x \<and> 125 \<le> x"
    then obtain x where x: "t = Finite x" "125 \<le> x" by blast
    then have "max (- 40) (min 125 x) = 125" by simp
    with x(1) set_temp_clamps(1,2) [of fmt self x] show ?thesis by simp
  qed
  then show "set_high_temp fmt self t = write_reg self TEMP_THR_H 0"
    and "set_low_temp fmt self t = write_reg self TEMP_THR_L 0"
    by (simp_all only: set_temp_at_125)
qed

lemma set_humidity_top:
  assumes "fle (Finite 100) rh"
  shows "set_high_humidity fmt self rh = write_reg self HUMID_THR_H 0"
    and "set_low_humidity fmt self rh = write_reg self HUMID_THR_L 0"
proof -
  have "set_high_humidity fmt self rh = set_high_humidity fmt self (Finite 100)
        \<and> set_low_humidity fmt self rh = set_low_humidity fmt self (Finite 100)"
    using fle_100 [OF assms]
  proof
    assume "rh = PosInf"
    then show ?thesis by (simp only: set_humidity_clamps(3,4) simp_thms)
  next
    assume "\<exists>x. rh = Finite x \<and> 100 \<le> x"
    then obtain x where x: "rh = Finite x" "100 \<le> x" by blast
    then have "max 0 (min 100 x) = 100" by simp
    with x(1) set_humidity_clamps(1,2) [of fmt self x] show ?thesis by simp
  qed
  then show "set_high_humidity fmt self rh = write_reg self HUMID_THR_H 0"
    and "set_low_humidity fmt self rh = write_reg self HUMID_THR_L 0"
    by (simp_all only: set_humidity_at_100)
qed

lemma bank_write_zero_read:
  fixes f :: "int \<Rightarrow> real"
  shows "bnd (write_reg (sensor dev) reg 0) (\<lambda>_. bnd (read_reg (sensor dev) reg) (\<lambda>v. ret (f v))) w =
      (Inr (f 0), \<lparr>bus = (bus w)(reg := 0x00),
                   trace = trace w @ [Write dev reg [0x00], Read dev reg 1]\<rparr>)"
  by (simp add: bnd_def ret_def bank_read bank_write)

text \<open>
  C10. At the upper end the conversion gives exactly 256, which the mask turns into 0. So
  for every temperature input of 125 or more, infinity included, both temperature setters
  write 0x00 and the value read back is -40, and for every humidity input of 100 or more
  both humidity setters write 0x00 and the value read back is 0, in either float format.
\<close>

theorem upper_boundary_wraps_to_zero:
  assumes "fle (Finite 125) t" and "fle (Finite 100) rh"
  shows "set_high_temp fmt self t = write_reg self TEMP_THR_H 0
   \<and> set_low_temp fmt self t = write_reg self TEMP_THR_L 0
   \<and> set_high_humidity fmt self rh = write_reg self HUMID_THR_H 0
   \<and> set_low_humidity fmt self rh = write_reg self HUMID_THR_L 0
   \<and> bnd (set_high_temp fmt (sensor dev) t) (\<lambda>_. read_high_temp_threshold (sensor dev)) w =
       (Inr (- 40), \<lparr>bus = (bus w)(TEMP_THR_H := 0x00),
                     trace = trace w @ [Write dev TEMP_THR_H [0x00], Read dev TEMP_THR_H 1]\<rparr>)
   \<and> bnd (set_low_temp fmt (sensor dev) t) (\<lambda>_. read_low_temp_threshold (sensor dev)) w =
       (Inr (- 40), \<lparr>bus = (bus w)(TEMP_THR_L := 0x00),
                     trace = trace w @ [Write dev TEMP_THR_L [0x00], Read dev TEMP_THR_L 1]\<rparr>)
   \<and> bnd (set_high_humidity fmt (sensor dev) rh) (\<lambda>_. read_high_humidity_threshold (sensor dev)) w =
       (Inr 0, \<lparr>bus = (bus w)(HUMID_THR_H := 0x00),
                trace = trace w @ [Write dev HUMID_THR_H [0x00], Read dev HUMID_THR_H 1]\<rparr>)
   \<and> bnd (set_low_humidity fmt (sensor dev) rh) (\<lambda>_. read_low_humidity_threshold (sensor dev)) w =
       (Inr 0, \<lparr>bus = (bus w)(HUMID_THR_L := 0x00),
                trace = trace w @ [Write dev HUMID_THR_L [0x00], Read dev HUMID_THR_L 1]\<rparr>)"
  apply (simp only: set_temp_top [OF assms(1)] set_humidity_top [OF assms(2)]
      read_high_temp_threshold_def read_low_temp_threshold_def
      read_high_humidity_threshold_def read_low_humidity_threshold_def bank_write_zero_read)
  apply simp
  done

theorem upper_boundary_wraps_to_zero_witness:
  "fle (Finite 125) (Finite 125) \<and> fle (Finite 100) (Finite 150)
   \<and> fst (bnd (set_high_temp Binary32 (sensor 0x40) (Finite 125))
            (\<lambda>_. read_high_temp_threshold (sensor 0x40)) (start (\<lambda>_. 0xAA))) = Inr (- 40)
   \<and> fst (bnd (set_low_humidity Binary32 (sensor 0x40) (Finite 150))
            (\<lambda>_. read_low_humidity_threshold (sensor 0x40)) (start (\<lambda>_. 0xAA))) = Inr 0"
proof -
  have h1: "fle (Finite 125) (Finite 125)" and h2: "fle (Finite 100) (Finite 150)"
    by (simp_all add: fle_def)
  show ?thesis
    using h1 h2 upper_boundary_wraps_to_zero
      [OF h1 h2, of Binary32 "flaky_sensor 0x40" "0x40" "start (\<lambda>_. 0xAA)"]
    by simp
qed

text \<open>
  The arithmetic of the setters is that of the runtime, not exact arithmetic. The double
  nearest below 125 and the double written 42.49999999999999 round up in \<open>t + 40.0\<close> (a
  tie, resolved to the even neighbour), so the bytes written are 0x00 and 0x80, where
  exact arithmetic would give 0xFF and 0x7F; likewise for the single nearest below 125.
\<close>

lemma fround_ties:
  "fround Binary64 (165 - 1 / 2 ^ 46) = 165"
  "fround Binary64 (165 / 2 - 1 / 2 ^ 47) = 165 / 2"
  "fround Binary32 (165 - 1 / 2 ^ 17) = 165"
proof -
  have "round_even ((165 - 1 / 2 ^ 46) * 2 ^ 45) =
          (if even (5805421394657279 :: int) then 5805421394657279 else 5805421394657279 + 1)"
    by (rule round_even_tie) simp
  then have r: "round_even ((165 - 1 / 2 ^ 46) /
                  pow2 (max 7 (emin Binary64) - int (precision Binary64) + 1)) = 5805421394657280"
    by (simp add: pow2_def)
  have "fround Binary64 (165 - 1 / 2 ^ 46) =
          real_of_int 5805421394657280 *
            pow2 (max 7 (emin Binary64) - int (precision Binary64) + 1)"
    by (rule fround_eq [OF _ _ r]) (simp_all add: pow2_def)
  then show "fround Binary64 (165 - 1 / 2 ^ 46) = 165" by (simp add: pow2_def)
  have "round_even ((165 / 2 - 1 / 2 ^ 47) * 2 ^ 46) =
          (if even (5805421394657279 :: int) then 5805421394657279 else 5805421394657279 + 1)"
    by (rule round_even_tie) simp
  then have r: "round_even ((165 / 2 - 1 / 2 ^ 47) /
                  pow2 (max 6 (emin Binary64) - int (precision Binary64) + 1)) = 5805421394657280"
    by (simp add: pow2_def)
  have "fround Binary64 (165 / 2 - 1 / 2 ^ 47) =
          real_of_int 5805421394657280 *
            pow2 (max 6 (emin Binary64) - int (precision Binary64) + 1)"
    by (rule fround_eq [OF _ _ r]) (simp_all add: pow2_def)
  then show "fround Binary64 (165 / 2 - 1 / 2 ^ 47) = 165 / 2" by (simp add: pow2_def)
  have "round_even ((165 - 1 / 2 ^ 17) * 2 ^ 16) =
          (if even (10813439 :: int) then 10813439 else 10813439 + 1)"
    by (rule round_even_tie) simp
  then have r: "round_even ((165 - 1 / 2 ^ 17) /
                  pow2 (max 7 (emin Binary32) - int (precision Binary32) + 1)) = 10813440"
    by (simp add: pow2_def)
  have "fround Binary32 (165 - 1 / 2 ^ 17) =
          real_of_int 10813440 * pow2 (max 7 (emin Binary32) - int (precision Binary32) + 1)"
    by (rule fround_eq [OF _ _ r]) (simp_all add: pow2_def)
  then show "fround Binary32 (165 - 1 / 2 ^ 17) = 165" by (simp add: pow2_def)
qed

lemma fadd_ties:
  "fadd Binary64 (Finite (125 - 1 / 2 ^ 46)) (Finite 40) = Finite 165"
  "fadd Binary64 (Finite (85 / 2 - 1 / 2 ^ 47)) (Finite 40) = Finite (165 / 2)"
  "fadd Binary32 (Finite (125 - 1 / 2 ^ 17)) (Finite 40) = Finite 165"
proof -
  have e: "(125 - 1 / 2 ^ 46 + 40 :: real) = 165 - 1 / 2 ^ 46"
    "(85 / 2 - 1 / 2 ^ 47 + 40 :: real) = 165 / 2 - 1 / 2 ^ 47"
    "(125 - 1 / 2 ^ 17 + 40 :: real) = 165 - 1 / 2 ^ 17"
    by simp_all
  show "fadd Binary64 (Finite (125 - 1 / 2 ^ 46)) (Finite 40) = Finite 165"
    unfolding fadd.simps e by (rule finish_eq, rule fround_ties) simp
  show "fadd Binary64 (Finite (85 / 2 - 1 / 2 ^ 47)) (Finite 40) = Finite (165 / 2)"
    unfolding fadd.simps e by (rule finish_eq, rule fround_ties) simp
  show "fadd Binary32 (Finite (125 - 1 / 2 ^ 17)) (Finite 40) = Finite 165"
    unfolding fadd.simps e by (rule finish_eq, rule fround_ties) simp
qed

lemma fexp_more: "fexp 21120 = 14" "fexp 128 = 7"
  by (rule fexp_eqI; simp add: pow2_def)+

lemma finish_more: "finish Binary64 21120 = Finite 21120" "finish Binary64 128 = Finite 128"
  by (rule finish_eq, simp add: fround_def fexp_more pow2_def round_even_numeral, simp)+

lemma setters_round_as_the_runtime:
  "set_high_temp Binary64 self (Finite (125 - 1 / 2 ^ 46)) = write_reg self TEMP_THR_H 0x00"
  "set_low_temp Binary64 self (Finite (85 / 2 - 1 / 2 ^ 47)) = write_reg self TEMP_THR_L 0x80"
  "set_high_temp Binary32 self (Finite (125 - 1 / 2 ^ 17)) = write_reg self TEMP_THR_H 0x00"
proof -
  have c: "\<not> fless (Finite (125 - 1 / 2 ^ 46)) (Finite (- 40))"
    "\<not> fless (Finite 125) (Finite (125 - 1 / 2 ^ 46))"
    "\<not> fless (Finite (85 / 2 - 1 / 2 ^ 47)) (Finite (- 40))"
    "\<not> fless (Finite 125) (Finite (85 / 2 - 1 / 2 ^ 47))"
    "\<not> fless (Finite (125 - 1 / 2 ^ 17)) (Finite (- 40))"
    "\<not> fless (Finite 125) (Finite (125 - 1 / 2 ^ 17))"
    by simp_all
  show "set_high_temp Binary64 self (Finite (125 - 1 / 2 ^ 46)) = write_reg self TEMP_THR_H 0x00"
    unfolding set_high_temp_def Let_def
    by (simp only: c if_False fadd_ties) (simp add: finish_exact result_bnd)
  show "set_low_temp Binary64 self (Finite (85 / 2 - 1 / 2 ^ 47)) = write_reg self TEMP_THR_L 0x80"
    unfolding set_low_temp_def Let_def
    by (simp only: c if_False fadd_ties) (simp add: finish_more result_bnd)
  show "set_high_temp Binary32 self (Finite (125 - 1 / 2 ^ 17)) = write_reg self TEMP_THR_H 0x00"
    unfolding set_high_temp_def Let_def
    by (simp only: c if_False fadd_ties) (simp add: finish_exact result_bnd)
qed

section \<open>Reset\<close>

text \<open>
  C8. When the transport completes both transactions, \<open>reset\<close> reads the
  device-configuration register, writes the byte read with bit 0x80 set back to it, calls
  \<open>sleep_ms(50)\<close> and returns: one write, to register 0x0E, and nothing on the bus after
  it. How long \<open>sleep_ms(50)\<close> blocks is the platform's contract; the trace records the
  call and its argument.
\<close>

theorem reset_one_write_then_sleep:
  assumes "readfrom_mem (i2c self) (addr self) CONFIG 1 (bus w) = (Inr [c], t1)"
      and "writeto_mem (i2c self) (addr self) CONFIG [c OR 0x80] t1 = (Inr (), t2)"
  shows "reset self w =
           (Inr (), \<lparr>bus = t2,
                     trace = trace w @ [Read (addr self) CONFIG 1,
                                        Write (addr self) CONFIG [c OR 0x80],
                                        Sleep 50]\<rparr>)
         \<and> write_targets [Read (addr self) CONFIG 1, Write (addr self) CONFIG [c OR 0x80], Sleep 50]
             = [0x0E]"
  using assms
  by (simp add: reset_def bnd_def read_reg_def write_reg_eq sleep_ms_def of_int_or_eq CONFIG_def)

theorem reset_one_write_then_sleep_witness:
  "readfrom_mem (i2c (sensor 0x40)) (addr (sensor 0x40)) CONFIG 1 (bus (start (\<lambda>_. 0x15)))
     = (Inr [0x15], (\<lambda>_. 0x15))
   \<and> writeto_mem (i2c (sensor 0x40)) (addr (sensor 0x40)) CONFIG [0x15 OR 0x80] (\<lambda>_. 0x15)
     = (Inr (), (\<lambda>_. 0x15)(0x0E := 0x95))
   \<and> reset (sensor 0x40) (start (\<lambda>_. 0x15)) =
       (Inr (), \<lparr>bus = (\<lambda>_. 0x15)(0x0E := 0x95),
                 trace = [Read 0x40 0x0E 1, Write 0x40 0x0E [0x95], Sleep 50]\<rparr>)"
proof -
  have h1: "readfrom_mem (i2c (sensor 0x40)) (addr (sensor 0x40)) CONFIG 1 (bus (start (\<lambda>_. 0x15)))
     = (Inr [0x15], (\<lambda>_. 0x15))"
    by (simp add: sensor_def bank_def start_def)
  have h2: "writeto_mem (i2c (sensor 0x40)) (addr (sensor 0x40)) CONFIG [0x15 OR 0x80] (\<lambda>_. 0x15)
     = (Inr (), (\<lambda>_. 0x15)(0x0E := 0x95))"
    by (simp add: sensor_def bank_def CONFIG_def)
  show ?thesis
    using h1 h2 reset_one_write_then_sleep [OF h1 h2]
    by (simp add: start_def sensor_def CONFIG_def)
qed

text \<open>
  On any transport the trace of \<open>reset\<close> is a prefix of that one: it ends at the first
  transaction that fails, and the sleep is reached only after the write succeeded.
\<close>

lemma reset_traffic:
  "trace (snd (reset self w)) = trace w @
     (case readfrom_mem (i2c self) (addr self) CONFIG 1 (bus w) of
        (Inl e, t1) \<Rightarrow> [Read (addr self) CONFIG 1]
      | (Inr bs, t1) \<Rightarrow>
          (case fst (writeto_mem (i2c self) (addr self) CONFIG
                       [word_of_int (from_bytes_little bs OR 0x80)] t1) of
             Inl e \<Rightarrow> [Read (addr self) CONFIG 1,
                       Write (addr self) CONFIG [word_of_int (from_bytes_little bs OR 0x80)]]
           | Inr u \<Rightarrow> [Read (addr self) CONFIG 1,
                       Write (addr self) CONFIG [word_of_int (from_bytes_little bs OR 0x80)],
                       Sleep 50]))"
  by (simp add: reset_def bnd_def read_reg_def write_reg_eq sleep_ms_def
      split: prod.splits sum.splits)

section \<open>No write outside the configuration block\<close>


lemma issues_ret: "issues_only P (ret x)"
  by (simp add: issues_only_def ret_def)

lemma issues_bnd:
  assumes "issues_only P m" and "\<And>x. issues_only P (k x)"
  shows "issues_only P (bnd m k)"
  unfolding issues_only_def
proof
  fix w
  obtain es where m: "trace (snd (m w)) = trace w @ es" "list_all P es"
    using assms(1) unfolding issues_only_def by blast
  show "\<exists>es. trace (snd (bnd m k w)) = trace w @ es \<and> list_all P es"
  proof (cases "m w")
    case (Pair r w')
    show ?thesis
    proof (cases r)
      case (Inl e)
      with Pair m show ?thesis by (auto simp: bnd_def)
    next
      case (Inr x)
      obtain es' where k: "trace (snd (k x w')) = trace w' @ es'" "list_all P es'"
        using assms(2) [of x] unfolding issues_only_def by blast
      with Pair Inr m have "trace (snd (bnd m k w)) = trace w @ (es @ es')" "list_all P (es @ es')"
        by (simp_all add: bnd_def)
      then show ?thesis by blast
    qed
  qed
qed

lemma issues_result: "issues_only P (result r)"
  by (simp add: issues_only_def result_def)

lemma issues_returning: "issues_only P m \<Longrightarrow> issues_only P (returning f m)"
  unfolding returning_def by (intro issues_bnd issues_ret)

lemma issues_read_reg: "P (Read (addr self) reg 1) \<Longrightarrow> issues_only P (read_reg self reg)"
  by (simp add: issues_only_def read_reg_def split: prod.splits)

lemma issues_write_reg:
  "P (Write (addr self) reg [word_of_int v]) \<Longrightarrow> issues_only P (write_reg self reg v)"
  by (simp add: issues_only_def write_reg_eq)

lemma issues_sleep_ms: "P (Sleep ms) \<Longrightarrow> issues_only P (sleep_ms ms)"
  by (simp add: issues_only_def sleep_ms_def)

lemma issues_is_connected: "P Scan \<Longrightarrow> issues_only P (is_connected self)"
  by (simp add: issues_only_def is_connected_def split: prod.splits)

lemmas method_defs =
  read_temp_def read_humidity_def read_temp_offset_adjust_def set_temp_offset_adjust_def
  read_humidity_offset_adjust_def set_humidity_offset_adjust_def enable_heater_def
  disable_heater_def set_low_temp_def set_high_temp_def set_high_humidity_def
  set_low_humidity_def read_low_humidity_threshold_def read_high_humidity_threshold_def
  read_low_temp_threshold_def read_high_temp_threshold_def set_temp_res_def set_humid_res_def
  set_measurement_mode_def trigger_measurement_def reset_def enable_interrupt_def
  disable_interrupt_def set_rate_def set_interrupt_polarity_def set_interrupt_mode_def
  read_interrupt_status_def clear_max_temp_def clear_max_humidity_def read_max_temp_def
  read_max_humidity_def enable_threshold_interrupt_def disable_threshold_interrupt_def
  enable_drdy_interrupt_def disable_drdy_interrupt_def

lemma call_in_config_block: "issues_only in_config_block (call fmt self c)"
  by (cases c)
    (simp_all add: method_defs Let_def reg_defs issues_returning issues_bnd issues_ret
      issues_read_reg issues_write_reg issues_sleep_ms issues_is_connected issues_result)

lemma calls_in_config_block:
  "\<exists>es. trace (calls fmt self cs w) = trace w @ es \<and> list_all in_config_block es"
proof (induction cs arbitrary: w)
  case Nil
  show ?case by simp
next
  case (Cons c cs)
  obtain es where a: "trace (snd (call fmt self c w)) = trace w @ es" "list_all in_config_block es"
    using call_in_config_block [of fmt self c] unfolding issues_only_def by blast
  obtain es' where b: "trace (calls fmt self cs (snd (call fmt self c w))) = trace (snd (call fmt self c w)) @ es'"
      "list_all in_config_block es'"
    using Cons.IH by blast
  from a b have "trace (calls fmt self (c # cs) w) = trace w @ (es @ es')"
      "list_all in_config_block (es @ es')" by simp_all
  then show ?case by blast
qed

lemma write_targets_in_block:
  "list_all in_config_block es \<Longrightarrow> set (write_targets es) \<subseteq> {0x00..0x0F}"
  by (induction es rule: write_targets.induct) simp_all

text \<open>
  C9. For every transport, either float format, every starting world and every sequence
  of public calls with any arguments, each write the driver issues addresses a register offset from 0x00 to
  0x0F, so none addresses an identification register 0xFC to 0xFF.
\<close>

theorem never_writes_identification_registers:
  "\<exists>es. trace (calls fmt self cs w) = trace w @ es
        \<and> set (write_targets es) \<subseteq> {0x00..0x0F}
        \<and> set (write_targets es) \<inter> {MID_L, MID_H, DEVICE_ID_L, DEVICE_ID_H} = {}"
proof -
  obtain es where es: "trace (calls fmt self cs w) = trace w @ es" "list_all in_config_block es"
    using calls_in_config_block by blast
  have sub: "set (write_targets es) \<subseteq> {0x00..0x0F}"
    using es(2) by (rule write_targets_in_block)
  have "{0x00..0x0F} \<inter> {MID_L, MID_H, DEVICE_ID_L, DEVICE_ID_H} = ({} :: int set)"
    by (simp add: MID_L_def MID_H_def DEVICE_ID_L_def DEVICE_ID_H_def)
  with sub have "set (write_targets es) \<inter> {MID_L, MID_H, DEVICE_ID_L, DEVICE_ID_H} = {}"
    by blast
  with es(1) sub show ?thesis by blast
qed

theorem never_writes_identification_registers_witness:
  "trace (calls Binary32 (sensor 0x40)
            [Reset, Set_rate 5, Set_high_temp (Finite 125), Set_low_temp NaN, Clear_max_temp, Read_temp]
            (start (\<lambda>_. 0))) =
     [Read 0x40 0x0E 1, Write 0x40 0x0E [0x80], Sleep 50,
      Read 0x40 0x0E 1, Write 0x40 0x0E [0xD0],
      Write 0x40 0x0B [0x00],
      Write 0x40 0x05 [0x00],
      Read 0x40 0x00 1, Read 0x40 0x01 1]
   \<and> write_targets
        (trace (calls Binary32 (sensor 0x40)
                  [Reset, Set_rate 5, Set_high_temp (Finite 125), Set_low_temp NaN, Clear_max_temp,
                   Read_temp]
                  (start (\<lambda>_. 0)))) = [0x0E, 0x0E, 0x0B, 0x05]"
  using never_writes_identification_registers
    [of Binary32 "sensor 0x40"
      "[Reset, Set_rate 5, Set_high_temp (Finite 125), Set_low_temp NaN, Clear_max_temp, Read_temp]"
      "start (\<lambda>_. 0)"]
  by (simp add: reset_def set_rate_def clear_max_temp_def read_temp_def set_temp_at_125 set_nan
      returning_def bnd_def ret_def bank_read bank_write sleep_ms_def
      start_def reg_defs setting_defs Let_def)

end
